theory Spec2Isabelle
  imports Main
begin

section \<open>JavaScript values shared by the revisions of the reporter\<close>

text \<open>
  The repository holds three revisions of the reporter class: the batched one
  (\<^verbatim>\<open>resultQueue\<close>, \<^verbatim>\<open>flushResults\<close>), the first streaming one (upload
  failures carry the status of the test) and the streaming one with the readiness
  promise (\<^verbatim>\<open>testRunReadyPromise\<close>, \<^verbatim>\<open>calculateUploadedCounts\<close>). Numbers
  of JavaScript are integers here: every number the reporter computes is a counter, a
  length or a difference of them.
\<close>

text \<open>
  A value that was thrown (or a promise was rejected with). The reporter looks at such
  a value in three ways: \<^verbatim>\<open>error instanceof Error\<close>, \<^verbatim>\<open>error.message\<close> and
  \<^verbatim>\<open>String(error)\<close>. The values are told apart by what these give:
  \<^item> \<open>JsError m\<close>: an \<^verbatim>\<open>Error\<close> with the message \<open>m\<close> (the message of an
    \<^verbatim>\<open>Error\<close> is taken to be a string that can be read);
  \<^item> \<open>JsValue s\<close>: a value that is no \<^verbatim>\<open>Error\<close>, has no \<^verbatim>\<open>message\<close> and
    is rendered as \<open>s\<close> by \<^verbatim>\<open>String\<close> (a string, a number, a plain object);
  \<^item> \<open>JsNull\<close>, \<open>JsUndefined\<close>: rendered as \<^verbatim>\<open>null\<close> and \<^verbatim>\<open>undefined\<close>;
    reading a property of them throws a \<^verbatim>\<open>TypeError\<close>;
  \<^item> \<open>JsUnrenderable t\<close>: a value that is no \<^verbatim>\<open>Error\<close>, has no
    \<^verbatim>\<open>message\<close>, and whose rendering by \<^verbatim>\<open>String\<close> throws \<open>t\<close>
    (\<^verbatim>\<open>Object.create(null)\<close>, an object whose \<^verbatim>\<open>toString\<close> throws).
\<close>

datatype thrown =
    JsError string
  | JsValue string
  | JsNull
  | JsUndefined
  | JsUnrenderable thrown

text \<open>
  \<^verbatim>\<open>error instanceof Error ? error.message : String(error)\<close>: the message, or
  (\<open>Inl\<close>) what the rendering throws.
\<close>

fun message_of :: "thrown \<Rightarrow> thrown + string" where
  "message_of (JsError m) = Inr m"
| "message_of (JsValue s) = Inr s"
| "message_of JsNull = Inr ''null''"
| "message_of JsUndefined = Inr ''undefined''"
| "message_of (JsUnrenderable t) = Inl t"

text \<open>Truthiness of an optional string: \<^verbatim>\<open>undefined\<close> and \<^verbatim>\<open>''\<close> are falsy.\<close>

fun truthy :: "string option \<Rightarrow> bool" where
  "truthy None = False"
| "truthy (Some s) = (s \<noteq> [])"

text \<open>\<^verbatim>\<open>Array.prototype.join\<close> with a separator.\<close>

fun join :: "string \<Rightarrow> string list \<Rightarrow> string" where
  "join sep [] = []"
| "join sep [x] = x"
| "join sep (x # y # ys) = x @ sep @ join sep (y # ys)"

subsection \<open>Playwright's test case and test result\<close>

text \<open>The \<^verbatim>\<open>TestStatus\<close> union of Playwright: the type of \<^verbatim>\<open>result.status\<close>.\<close>

datatype TestStatus = Passed | Failed | TimedOut | Skipped | Interrupted

fun statusString :: "TestStatus \<Rightarrow> string" where
  "statusString Passed = ''passed''"
| "statusString Failed = ''failed''"
| "statusString TimedOut = ''timedOut''"
| "statusString Skipped = ''skipped''"
| "statusString Interrupted = ''interrupted''"

datatype AttachmentType = Screenshot | Video | Trace | Other

text \<open>
  An attachment as \<^verbatim>\<open>extractAttachmentsAsBuffers\<close> returns it (name, content type,
  bytes, type). Reading the bytes from disk is outside the model: a test result carries
  the buffers that function yields for it.
\<close>

record Attachment =
  att_name :: string
  att_contentType :: string
  att_data :: "nat list"
  att_type :: AttachmentType

record TestCase =
  tc_title :: string
  tc_titlePath :: "string list"
  tc_retries :: int

record TestResult =
  tr_retry :: int
  tr_status :: TestStatus
  tr_duration :: int
  tr_buffers :: "Attachment list"

subsection \<open>utils.ts\<close>

text \<open>\<^verbatim>\<open>mapTestStatus(status: string)\<close>: a switch over the string with a default.\<close>

definition mapTestStatus :: "string \<Rightarrow> string" where
  "mapTestStatus status =
     (if status = ''passed'' then ''passed''
      else if status = ''failed'' then ''failed''
      else if status = ''timedOut'' then ''timedout''
      else if status = ''skipped'' \<or> status = ''interrupted'' then ''skipped''
      else ''failed'')"

text \<open>
  The fields of \<^verbatim>\<open>QAStudioTestResult\<close> that the delivery pipeline reads; the
  \<^verbatim>\<open>attachments\<close> field is deleted in \<^verbatim>\<open>onTestEnd\<close> before the result is sent.
\<close>

record QAStudioTestResult =
  qa_title :: string
  qa_status :: string
  qa_duration :: int
  qa_retry :: int

definition convertTestResult :: "TestCase \<Rightarrow> TestResult \<Rightarrow> QAStudioTestResult" where
  "convertTestResult test result =
     \<lparr> qa_title = tc_title test,
       qa_status = mapTestStatus (statusString (tr_status result)),
       qa_duration = tr_duration result,
       qa_retry = tr_retry result \<rparr>"

subsection \<open>The responses of the API client\<close>

text \<open>
  \<^verbatim>\<open>api-client.ts\<close> is not among the sources, so the behaviour of the client is a
  parameter: each call either throws or returns a response of the declared type
  (\<^verbatim>\<open>types.ts\<close>). Optional arrays are options.
\<close>

record ResultId =
  ri_testResultId :: string
  ri_title :: string

record ResultError =
  re_testTitle :: string
  re_error :: string

record SubmitTestResultsResponse =
  sr_processedCount :: int
  sr_results :: "ResultId list option"
  sr_errors :: "ResultError list option"

record Summary =
  sm_total :: int
  sm_passed :: int
  sm_failed :: int
  sm_skipped :: int
  sm_duration :: int

subsection \<open>Options, console output and the state common to the revisions\<close>

record Options =
  opt_createTestRun :: bool
  opt_testRunId :: "string option"
  opt_verbose :: bool
  opt_silent :: bool
  opt_uploadScreenshots :: bool
  opt_uploadVideos :: bool
  opt_batchSize :: int

text \<open>
  What the reporter prints and which requests it makes. A constructor stands for one
  template of the source and carries the interpolated values; progress messages of
  \<^verbatim>\<open>log\<close> that no property reads are left out.
\<close>

datatype effect =
    ConsoleError string
      \<comment> \<open>\<^verbatim>\<open>console.error\<close> of \<^verbatim>\<open>[QAStudio.dev Reporter] ${fullMessage}\<close> in \<^verbatim>\<open>handleError\<close>\<close>
  | WarnCreationFailed
      \<comment> \<open>\<^verbatim>\<open>WARNING: Test run creation failed, no results were uploaded.\<close>\<close>
  | WarnCreationError string
      \<comment> \<open>\<^verbatim>\<open>Error: ${testRunCreationError.message}\<close>\<close>
  | WarnRanLocally int
      \<comment> \<open>\<^verbatim>\<open>${totalTests} test(s) ran locally but could not be uploaded.\<close>\<close>
  | WarnFailedToUpload int
      \<comment> \<open>\<^verbatim>\<open>WARNING: ${uploadFailures.length} test result(s) failed to upload:\<close>\<close>
  | WarnFailureTitle string
      \<comment> \<open>\<^verbatim>\<open>- ${failure.testTitle}\<close>\<close>
  | WarnFailureError string
      \<comment> \<open>\<^verbatim>\<open>Error: ${failure.error}\<close>\<close>
  | WarnIncomplete int int
      \<comment> \<open>\<^verbatim>\<open>Expected ${totalTests} tests, but ${uploadFailures.length} failed to upload.\<close>\<close>
  | LogViewRun string
      \<comment> \<open>\<^verbatim>\<open>View test run: ...\<close> with the run identifier\<close>
  | LogPartlyUploaded int int
      \<comment> \<open>\<^verbatim>\<open>${totalTests - uploadFailures.length}/${totalTests} tests uploaded successfully\<close>\<close>
  | LogAllUploaded int
      \<comment> \<open>\<^verbatim>\<open>All ${totalTests} tests uploaded successfully\<close>\<close>
  | LogResultError string
      \<comment> \<open>verbose: \<^verbatim>\<open>Error: ${err.error}\<close> for an entry of \<^verbatim>\<open>response.errors\<close>\<close>
  | LogUploaded string nat
      \<comment> \<open>verbose: \<^verbatim>\<open>Uploaded: ${attachment.name} (${attachment.data.length} bytes)\<close>\<close>
  | LogFailedToUpload string thrown
      \<comment> \<open>verbose: \<^verbatim>\<open>Failed to upload ${attachment.name}:\<close> with the error\<close>
  | LogFailedResult string string
      \<comment> \<open>verbose: \<^verbatim>\<open>Failed to upload result for ${item.testTitle}:\<close> with the error\<close>
  | LogBatchFailed int
      \<comment> \<open>verbose: \<^verbatim>\<open>Batch failed, ${resultQueue.length} results remain in queue for retry\<close>\<close>
  | CallSubmitTestResults string "QAStudioTestResult list"
      \<comment> \<open>a request \<^verbatim>\<open>apiClient.submitTestResults({testRunId, results})\<close>\<close>
  | CallUploadAttachment string Attachment
      \<comment> \<open>a request \<^verbatim>\<open>apiClient.uploadAttachment(testResultId, ...)\<close>\<close>
  | CallCompleteTestRun string Summary
      \<comment> \<open>a request \<^verbatim>\<open>apiClient.completeTestRun({testRunId, summary})\<close>\<close>

text \<open>\<^verbatim>\<open>log\<close>: prints in verbose mode only.\<close>

definition log :: "Options \<Rightarrow> effect \<Rightarrow> effect list" where
  "log opts line = (if opt_verbose opts then [line] else [])"

text \<open>
  The fields every revision has: the options, \<^verbatim>\<open>state.testRunId\<close>,
  \<^verbatim>\<open>state.tests\<close> (keyed by the test identifier), the four counters, and what was
  printed and requested so far.
\<close>

record ReporterBase =
  options :: Options
  testRunId :: "string option"
  tests :: "string \<rightharpoonup> (TestCase \<times> TestResult)"
  totalTests :: int
  passedTests :: int
  failedTests :: int
  skippedTests :: int
  out :: "effect list"

definition getTestId :: "TestCase \<Rightarrow> string" where
  "getTestId test = join '' > '' (tc_titlePath test)"

text \<open>
  \<^verbatim>\<open>handleError\<close>: builds the message (which throws when the error cannot be
  rendered), then prints in silent mode and throws otherwise. The result is the state
  and the error thrown, if any.
\<close>

definition handleError ::
  "'a ReporterBase_scheme \<Rightarrow> string \<Rightarrow> thrown \<Rightarrow> 'a ReporterBase_scheme \<times> thrown option" where
  "handleError st message error =
     (case message_of error of
        Inl t \<Rightarrow> (st, Some t)
      | Inr errorMessage \<Rightarrow>
          (let fullMessage = message @ '': '' @ errorMessage in
           if opt_silent (options st)
           then (st\<lparr>out := out st @ [ConsoleError fullMessage]\<rparr>, None)
           else (st, Some (JsError fullMessage))))"

text \<open>
  \<^verbatim>\<open>onBegin\<close> of the two revisions without the readiness promise, from the point
  where \<^verbatim>\<open>createTestRun\<close> has settled with \<open>created\<close>.
\<close>

definition onBegin1 ::
  "'a ReporterBase_scheme \<Rightarrow> thrown + string \<Rightarrow> 'a ReporterBase_scheme \<times> thrown option" where
  "onBegin1 st created =
     (if opt_createTestRun (options st) \<and> \<not> truthy (opt_testRunId (options st))
      then (case created of
              Inr response_id \<Rightarrow> (st\<lparr>testRunId := Some response_id\<rparr>, None)
            | Inl error \<Rightarrow> handleError st ''Failed to create test run'' error)
      else (st\<lparr>testRunId := opt_testRunId (options st)\<rparr>, None))"

text \<open>\<^verbatim>\<open>onTestBegin\<close>: \<^verbatim>\<open>state.tests.set(testId, {test, result, startTime})\<close>.\<close>

definition onTestBegin ::
  "'a ReporterBase_scheme \<Rightarrow> TestCase \<Rightarrow> TestResult \<Rightarrow> 'a ReporterBase_scheme" where
  "onTestBegin st test result = st\<lparr>tests := (tests st)(getTestId test \<mapsto> (test, result))\<rparr>"

text \<open>
  The counter update of \<^verbatim>\<open>onTestEnd\<close>, the same text in the three revisions:
  \<^verbatim>\<open>totalTests++\<close>, then the switch over \<^verbatim>\<open>result.status\<close>, which has no default.
\<close>

fun countStatus :: "TestStatus \<Rightarrow> 'a ReporterBase_scheme \<Rightarrow> 'a ReporterBase_scheme" where
  "countStatus Passed st = st\<lparr>passedTests := passedTests st + 1\<rparr>"
| "countStatus Failed st = st\<lparr>failedTests := failedTests st + 1\<rparr>"
| "countStatus TimedOut st = st\<lparr>failedTests := failedTests st + 1\<rparr>"
| "countStatus Skipped st = st\<lparr>skippedTests := skippedTests st + 1\<rparr>"
| "countStatus Interrupted st = st\<lparr>skippedTests := skippedTests st + 1\<rparr>"

definition updateCounters ::
  "TestResult \<Rightarrow> 'a ReporterBase_scheme \<Rightarrow> 'a ReporterBase_scheme" where
  "updateCounters result st =
     countStatus (tr_status result) (st\<lparr>totalTests := totalTests st + 1\<rparr>)"

text \<open>The filter of \<^verbatim>\<open>onTestEnd\<close> over the extracted attachments.\<close>

definition filteredAttachments :: "Options \<Rightarrow> TestResult \<Rightarrow> Attachment list" where
  "filteredAttachments opts result =
     filter (\<lambda>att.
        if att_type att = Screenshot \<and> \<not> opt_uploadScreenshots opts then False
        else if att_type att = Video \<and> \<not> opt_uploadVideos opts then False
        else True) (tr_buffers result)"


section \<open>The streaming reporter with the readiness promise\<close>

subsection \<open>Promises\<close>

text \<open>
  A settled promise is fulfilled with a value or rejected with what was thrown. A task
  pairs the settlement with the requests and console lines made on the way;
  \<open>then_p\<close> and \<open>catch_p\<close> are \<^verbatim>\<open>.then(f)\<close> and \<^verbatim>\<open>.catch(h)\<close>: a
  callback that returns a rejected task stands for a callback that throws.
\<close>

datatype 'a settled = Fulfilled 'a | Rejected thrown

type_synonym 'a task = "'a settled \<times> effect list"

definition then_p :: "'a task \<Rightarrow> ('a \<Rightarrow> 'b task) \<Rightarrow> 'b task" where
  "then_p p f =
     (case fst p of
        Fulfilled a \<Rightarrow> (let q = f a in (fst q, snd p @ snd q))
      | Rejected e \<Rightarrow> (Rejected e, snd p))"

definition catch_p :: "'a task \<Rightarrow> (thrown \<Rightarrow> 'a task) \<Rightarrow> 'a task" where
  "catch_p p h =
     (case fst p of
        Fulfilled a \<Rightarrow> p
      | Rejected e \<Rightarrow> (let q = h e in (fst q, snd p @ snd q)))"

text \<open>
  What the API client does for one record: the outcome of \<^verbatim>\<open>submitTestResults\<close>
  and, for the attachment at each position, the outcome of \<^verbatim>\<open>uploadAttachment\<close>.
\<close>

record Transport =
  t_submit :: "thrown + SubmitTestResultsResponse"
  t_upload :: "nat \<Rightarrow> thrown + unit"

text \<open>
  \<^verbatim>\<open>uploadAttachments\<close>: one request per attachment, each with a \<^verbatim>\<open>.then\<close> that
  logs and a \<^verbatim>\<open>.catch\<close> that logs and does not throw; \<^verbatim>\<open>Promise.allSettled\<close>
  over them. The requests are issued first, the handlers run afterwards.
\<close>

definition uploadAttachments ::
  "Options \<Rightarrow> (nat \<Rightarrow> thrown + unit) \<Rightarrow> string \<Rightarrow> Attachment list \<Rightarrow> unit task" where
  "uploadAttachments opts upload testResultId attachments =
     (if attachments = [] then (Fulfilled (), [])
      else (Fulfilled (),
            map (CallUploadAttachment testResultId) attachments @
            concat (map (\<lambda>(i, attachment).
               case upload i of
                 Inr _ \<Rightarrow> log opts (LogUploaded (att_name attachment) (length (att_data attachment)))
               | Inl error \<Rightarrow> log opts (LogFailedToUpload (att_name attachment) error))
              (enumerate 0 attachments))))"

text \<open>
  \<^verbatim>\<open>sendTestResult\<close>: returns at once without a run identifier; otherwise submits the
  single result (a throw of the client rejects the promise), logs the errors of the
  response, and uploads the attachments when the response has result identifiers.
\<close>

definition sendTestResult ::
  "'a ReporterBase_scheme \<Rightarrow> Transport \<Rightarrow> QAStudioTestResult \<Rightarrow> Attachment list \<Rightarrow> unit task" where
  "sendTestResult st net result attachments =
     (case testRunId st of
        None \<Rightarrow> (Fulfilled (), [])
      | Some runId \<Rightarrow>
          if \<not> truthy (Some runId) then (Fulfilled (), [])
          else
            then_p
              (case t_submit net of
                 Inl error \<Rightarrow> (Rejected error, [CallSubmitTestResults runId [result]])
               | Inr response \<Rightarrow> (Fulfilled response, [CallSubmitTestResults runId [result]]))
              (\<lambda>response.
                 then_p
                   (Fulfilled (),
                    (case sr_errors response of
                       None \<Rightarrow> []
                     | Some errs \<Rightarrow> concat (map (\<lambda>err. log (options st) (LogResultError (re_error err))) errs)))
                   (\<lambda>_. case sr_results response of
                           None \<Rightarrow> (Fulfilled (), [])
                         | Some [] \<Rightarrow> (Fulfilled (), [])
                         | Some (r # rs) \<Rightarrow>
                             if attachments \<noteq> []
                             then uploadAttachments (options st) (t_upload net)
                                    (ri_testResultId r) attachments
                             else (Fulfilled (), []))))"

subsection \<open>The state of the reporter\<close>

text \<open>The value a tracked promise fulfils with: \<^verbatim>\<open>{success: true}\<close> or
  \<^verbatim>\<open>{success: false, error}\<close>.\<close>

datatype UploadOutcome = Success | Failure string

text \<open>
  A tracked promise either still waits for \<^verbatim>\<open>testRunReadyPromise\<close>, holding what
  its callbacks will need (the converted result, the attachments, the behaviour of the
  client for it), or has settled.
\<close>

datatype Promise =
    Waiting QAStudioTestResult "Attachment list" Transport
  | Done "UploadOutcome settled"

record PendingUpload =
  promise :: Promise
  testTitle :: string

record UploadFailure =
  uf_testTitle :: string
  uf_error :: string

text \<open>
  \<open>testRunReady\<close> says whether \<^verbatim>\<open>testRunReadyPromise\<close> has been resolved;
  \<open>testRunCreationError\<close> holds the message of the stored error.
\<close>

record Reporter = ReporterBase +
  flushPromises :: "PendingUpload list"
  uploadFailures :: "UploadFailure list"
  testRunReady :: bool
  testRunCreationError :: "string option"

text \<open>The state the constructor leaves.\<close>

definition newReporter :: "Options \<Rightarrow> Reporter" where
  "newReporter opts =
     \<lparr> options = opts, testRunId = None, tests = Map.empty,
       totalTests = 0, passedTests = 0, failedTests = 0, skippedTests = 0, out = [],
       flushPromises = [], uploadFailures = [], testRunReady = False,
       testRunCreationError = None \<rparr>"

text \<open>
  The chain \<^verbatim>\<open>testRunReadyPromise.then(...).then(...).catch(...)\<close> of
  \<^verbatim>\<open>onTestEnd\<close>, run in the state in which the readiness promise is resolved.
  The last handler renders the error; when the rendering throws, the handler throws and
  the chain is rejected.
\<close>

definition sendPromise ::
  "Reporter \<Rightarrow> Transport \<Rightarrow> QAStudioTestResult \<Rightarrow> Attachment list \<Rightarrow> UploadOutcome task" where
  "sendPromise st net qaResult attachments =
     catch_p
       (then_p
          (then_p (Fulfilled (), [])
             (\<lambda>_. if \<not> truthy (testRunId st)
                   then (case testRunCreationError st of
                           Some m \<Rightarrow> (Rejected (JsError (''Test run creation failed: '' @ m)), [])
                         | None \<Rightarrow> (Rejected (JsError ''Test run was not created successfully''), []))
                   else sendTestResult st net qaResult attachments))
          (\<lambda>_. (Fulfilled Success, [])))
       (\<lambda>error. case message_of error of
                   Inl t \<Rightarrow> (Rejected t, [])
                 | Inr m \<Rightarrow> (Fulfilled (Failure m), []))"

text \<open>A waiting promise runs its chain; a settled one stays as it is.\<close>

definition settlePending :: "Reporter \<Rightarrow> PendingUpload \<Rightarrow> PendingUpload \<times> effect list" where
  "settlePending st p =
     (case promise p of
        Waiting qaResult attachments net \<Rightarrow>
          (let t = sendPromise st net qaResult attachments
           in (p\<lparr>promise := Done (fst t)\<rparr>, snd t))
      | Done r \<Rightarrow> (p, []))"

text \<open>
  \<^verbatim>\<open>testRunReadyResolve?.()\<close>: resolving a promise a second time does nothing; the
  first time it releases every chain that waits on it.
\<close>

definition resolveReady :: "Reporter \<Rightarrow> Reporter" where
  "resolveReady st =
     (if testRunReady st then st
      else (let ps = map (settlePending st) (flushPromises st)
            in st\<lparr>out := out st @ concat (map snd ps),
                  flushPromises := map fst ps,
                  testRunReady := True\<rparr>))"

subsection \<open>The reporter's hooks\<close>

text \<open>
  \<^verbatim>\<open>onBegin\<close>, from the point where \<^verbatim>\<open>createTestRun\<close> has settled with
  \<open>created\<close> (before that point the hook only stores the start time). The
  \<^verbatim>\<open>catch\<close> block stores the error, wrapping a value that is no \<^verbatim>\<open>Error\<close>
  in \<^verbatim>\<open>new Error(String(error))\<close>: when that rendering throws, nothing is
  stored and \<^verbatim>\<open>handleError\<close> is not reached. The \<^verbatim>\<open>finally\<close> block resolves
  the readiness promise in every case. The result is the state and what the hook
  throws, if anything.
\<close>

definition onBegin :: "Reporter \<Rightarrow> thrown + string \<Rightarrow> Reporter \<times> thrown option" where
  "onBegin st created =
     (let r =
        (if opt_createTestRun (options st) \<and> \<not> truthy (opt_testRunId (options st))
         then (case created of
                 Inr response_id \<Rightarrow> (st\<lparr>testRunId := Some response_id\<rparr>, None)
               | Inl error \<Rightarrow>
                   (case message_of error of
                      Inl t \<Rightarrow> (st, Some t)
                    | Inr m \<Rightarrow>
                        handleError (st\<lparr>testRunCreationError := Some m\<rparr>)
                          ''Failed to create test run'' error))
         else (st\<lparr>testRunId := opt_testRunId (options st)\<rparr>, None))
      in (resolveReady (fst r), snd r))"

text \<open>
  \<^verbatim>\<open>onTestEnd\<close>, with what the API client does for the record. It returns early
  for a test that \<^verbatim>\<open>onTestBegin\<close> did not register, counts and tracks a promise
  only for the final retry, and tracks the promise whether or not a test run exists.
  When the readiness promise is already resolved the chain is run when it is made: the
  state it reads is not written by any later hook but \<^verbatim>\<open>onBegin\<close>, and the
  drain waits for it in any case.
\<close>

definition onTestEnd :: "Reporter \<Rightarrow> TestCase \<Rightarrow> TestResult \<Rightarrow> Transport \<Rightarrow> Reporter" where
  "onTestEnd st test result net =
     (case tests st (getTestId test) of
        None \<Rightarrow> st
      | Some testData \<Rightarrow>
          (let st1 = st\<lparr>tests := (tests st)(getTestId test \<mapsto> (fst testData, result))\<rparr> in
           if tr_retry result = tc_retries test then
             (let st2 = updateCounters result st1;
                  qaResult = convertTestResult test result;
                  attachments = filteredAttachments (options st2) result;
                  p = \<lparr>promise = Waiting qaResult attachments net, testTitle = tc_title test\<rparr>
              in if testRunReady st2
                 then (let s = settlePending st2 p
                       in st2\<lparr>out := out st2 @ snd s,
                               flushPromises := flushPromises st2 @ [fst s]\<rparr>)
                 else st2\<lparr>flushPromises := flushPromises st2 @ [p]\<rparr>)
           else st1))"

text \<open>
  \<^verbatim>\<open>Promise.all\<close> over the tracked promises: rejected when one of them is, never
  settled (\<open>None\<close>) when one of them still waits, fulfilled with all values otherwise.
\<close>

fun rejection :: "PendingUpload list \<Rightarrow> thrown option" where
  "rejection [] = None"
| "rejection (p # ps) =
     (case promise p of Done (Rejected e) \<Rightarrow> Some e | _ \<Rightarrow> rejection ps)"

fun fulfilments :: "PendingUpload list \<Rightarrow> UploadOutcome list option" where
  "fulfilments [] = Some []"
| "fulfilments (p # ps) =
     (case promise p of
        Done (Fulfilled r) \<Rightarrow> (case fulfilments ps of Some rs \<Rightarrow> Some (r # rs) | None \<Rightarrow> None)
      | _ \<Rightarrow> None)"

definition promiseAll :: "PendingUpload list \<Rightarrow> (thrown + UploadOutcome list) option" where
  "promiseAll ps =
     (case rejection ps of
        Some e \<Rightarrow> Some (Inl e)
      | None \<Rightarrow> (case fulfilments ps of Some rs \<Rightarrow> Some (Inr rs) | None \<Rightarrow> None))"

text \<open>
  The \<^verbatim>\<open>results.forEach\<close> of \<^verbatim>\<open>sendTestResults\<close>: the failure records it
  pushes, one for each unsuccessful result, with the title tracked at the same index.
\<close>

fun collectFailures :: "PendingUpload list \<Rightarrow> UploadOutcome list \<Rightarrow> UploadFailure list" where
  "collectFailures (item # items) (Failure e # rs) =
     \<lparr>uf_testTitle = testTitle item, uf_error = e\<rparr> # collectFailures items rs"
| "collectFailures (item # items) (Success # rs) = collectFailures items rs"
| "collectFailures _ _ = []"

text \<open>
  \<^verbatim>\<open>sendTestResults\<close>: \<open>None\<close> when the \<^verbatim>\<open>await\<close> never returns, \<open>Inl\<close> when it
  throws.
\<close>

definition sendTestResults :: "Reporter \<Rightarrow> (thrown + Reporter) option" where
  "sendTestResults st =
     (if \<not> truthy (testRunId st) then Some (Inr st)
      else if flushPromises st \<noteq> [] then
        (case promiseAll (flushPromises st) of
           None \<Rightarrow> None
         | Some (Inl e) \<Rightarrow> Some (Inl e)
         | Some (Inr results) \<Rightarrow>
             (let failures = collectFailures (flushPromises st) results
              in Some (Inr (st\<lparr>out := out st @
                                concat (map (\<lambda>f. log (options st)
                                   (LogFailedResult (uf_testTitle f) (uf_error f))) failures),
                              flushPromises := [],
                              uploadFailures := uploadFailures st @ failures\<rparr>))))
      else Some (Inr st))"

text \<open>The warning block of \<^verbatim>\<open>onEnd\<close>.\<close>

definition reportFailures :: "Reporter \<Rightarrow> effect list" where
  "reportFailures st =
     (if uploadFailures st \<noteq> [] then
        (let testRunCreationFailureMsg =
               (case testRunCreationError st of
                  Some m \<Rightarrow> Some (''Test run creation failed: '' @ m)
                | None \<Rightarrow> None);
             allFailuresDueToTestRunCreation =
               (case testRunCreationFailureMsg of
                  None \<Rightarrow> False
                | Some msg \<Rightarrow> truthy (Some msg) \<and> list_all (\<lambda>f. uf_error f = msg) (uploadFailures st))
         in if allFailuresDueToTestRunCreation then
              (case testRunCreationError st of
                 Some m \<Rightarrow> [WarnCreationFailed, WarnCreationError m, WarnRanLocally (totalTests st)]
               | None \<Rightarrow> [])
            else
              [WarnFailedToUpload (int (length (uploadFailures st)))] @
              concat (map (\<lambda>failure. [WarnFailureTitle (uf_testTitle failure),
                                        WarnFailureError (uf_error failure)])
                        (uploadFailures st)) @
              [WarnIncomplete (totalTests st) (int (length (uploadFailures st)))])
      else [])"

definition calculateUploadedCounts :: "Reporter \<Rightarrow> int \<Rightarrow> Summary" where
  "calculateUploadedCounts st duration =
     \<lparr> sm_total = totalTests st - int (length (uploadFailures st)),
       sm_passed = passedTests st,
       sm_failed = failedTests st,
       sm_skipped = skippedTests st,
       sm_duration = duration \<rparr>"

text \<open>
  \<^verbatim>\<open>onEnd\<close>, with the measured duration and the outcome of \<^verbatim>\<open>completeTestRun\<close>:
  \<open>None\<close> when the hook never returns, otherwise the state and what the hook throws.
\<close>

definition onEnd ::
  "Reporter \<Rightarrow> int \<Rightarrow> thrown + unit \<Rightarrow> (Reporter \<times> thrown option) option" where
  "onEnd st duration completion =
     (case sendTestResults st of
        None \<Rightarrow> None
      | Some (Inl e) \<Rightarrow> Some (handleError st ''Failed to send test results'' e)
      | Some (Inr st1) \<Rightarrow>
          (let st2 = st1\<lparr>out := out st1 @ reportFailures st1\<rparr> in
           case testRunId st2 of
             None \<Rightarrow> Some (st2, None)
           | Some runId \<Rightarrow>
               if \<not> truthy (Some runId) then Some (st2, None)
               else
                 (let actualUploaded = calculateUploadedCounts st2 duration;
                      st3 = st2\<lparr>out := out st2 @ [CallCompleteTestRun runId actualUploaded]\<rparr>
                  in case completion of
                       Inl e \<Rightarrow> Some (handleError st3 ''Failed to send test results'' e)
                     | Inr _ \<Rightarrow>
                         Some (st3\<lparr>out := out st3 @
                                 [LogViewRun runId,
                                  (if uploadFailures st3 \<noteq> []
                                   then LogPartlyUploaded
                                          (totalTests st3 - int (length (uploadFailures st3)))
                                          (totalTests st3)
                                   else LogAllUploaded (totalTests st3))]\<rparr>, None))))"

text \<open>
  A run of the reporter: the hooks in the order the test runner calls them, each with
  what the API client does for it. A hook that throws leaves its state behind.
\<close>

datatype event =
    OnBegin "thrown + string"
  | OnTestBegin TestCase TestResult
  | OnTestEnd TestCase TestResult Transport
  | OnEnd int "thrown + unit"

fun step :: "event \<Rightarrow> Reporter \<Rightarrow> Reporter option" where
  "step (OnBegin created) st = Some (fst (onBegin st created))"
| "step (OnTestBegin test result) st = Some (onTestBegin st test result)"
| "step (OnTestEnd test result net) st = Some (onTestEnd st test result net)"
| "step (OnEnd duration completion) st =
     (case onEnd st duration completion of None \<Rightarrow> None | Some r \<Rightarrow> Some (fst r))"

fun run :: "event list \<Rightarrow> Reporter \<Rightarrow> Reporter option" where
  "run [] st = Some st"
| "run (e # es) st = (case step e st of None \<Rightarrow> None | Some st' \<Rightarrow> run es st')"


section \<open>The first streaming reporter\<close>

text \<open>
  In this revision an upload failure records the status of the test, a result is sent
  only when \<^verbatim>\<open>state.testRunId\<close> is set when the test ends, and the failure is
  pushed by the \<^verbatim>\<open>.catch\<close> of the send promise, whose first statement reads
  \<^verbatim>\<open>error.message\<close>: when that read throws, the handler stops before the push
  (the send promise is then rejected, which \<^verbatim>\<open>Promise.allSettled\<close> absorbs). The
  promise is settled here when it is made; in the source it settles before the
  \<^verbatim>\<open>Promise.allSettled\<close> of \<^verbatim>\<open>sendTestResults\<close> returns, so the failures are
  the same up to their order.
\<close>

datatype FailedStatus = FPassed | FFailed | FSkipped

text \<open>
  \<^verbatim>\<open>error.message\<close>, read without a test for \<^verbatim>\<open>Error\<close>: the message of an
  \<^verbatim>\<open>Error\<close>, \<^verbatim>\<open>undefined\<close> for a value that has none, and a
  \<^verbatim>\<open>TypeError\<close> (\<open>Inl\<close>; the wording is the engine's) for \<^verbatim>\<open>null\<close> and
  \<^verbatim>\<open>undefined\<close>.
\<close>

fun message_field :: "thrown \<Rightarrow> thrown + string option" where
  "message_field (JsError m) = Inr (Some m)"
| "message_field (JsValue s) = Inr None"
| "message_field (JsUnrenderable t) = Inr None"
| "message_field JsNull = Inl (JsError ''Cannot read properties of null (reading message)'')"
| "message_field JsUndefined =
     Inl (JsError ''Cannot read properties of undefined (reading message)'')"

record StatusFailure =
  sf_testTitle :: string
  sf_error :: "string option"
  sf_status :: FailedStatus

record Reporter1 = ReporterBase +
  uploadFailures1 :: "StatusFailure list"


definition failedStatus :: "TestStatus \<Rightarrow> FailedStatus" where
  "failedStatus s =
     (if s = Passed then FPassed
      else if s = Failed \<or> s = TimedOut then FFailed
      else FSkipped)"

definition onTestEnd1 :: "Reporter1 \<Rightarrow> TestCase \<Rightarrow> TestResult \<Rightarrow> Transport \<Rightarrow> Reporter1" where
  "onTestEnd1 st test result net =
     (case tests st (getTestId test) of
        None \<Rightarrow> st
      | Some testData \<Rightarrow>
          (let st1 = st\<lparr>tests := (tests st)(getTestId test \<mapsto> (fst testData, result))\<rparr> in
           if tr_retry result = tc_retries test then
             (let st2 = updateCounters result st1 in
              if truthy (testRunId st2) then
                (let qaResult = convertTestResult test result;
                     attachments = filteredAttachments (options st2) result;
                     t = sendTestResult st2 net qaResult attachments
                 in case fst t of
                      Fulfilled _ \<Rightarrow> st2\<lparr>out := out st2 @ snd t\<rparr>
                    | Rejected error \<Rightarrow>
                        (case message_field error of
                           Inl thrownByHandler \<Rightarrow> st2\<lparr>out := out st2 @ snd t\<rparr>
                         | Inr errorMsg \<Rightarrow>
                             st2\<lparr>out := out st2 @ snd t,
                                 uploadFailures1 := uploadFailures1 st2 @
                                   [\<lparr>sf_testTitle = tc_title test,
                                     sf_error = errorMsg,
                                     sf_status = failedStatus (tr_status result)\<rparr>]\<rparr>))
              else st2)
           else st1))"

text \<open>The \<^verbatim>\<open>reduce\<close> of \<^verbatim>\<open>onEnd\<close> over the failures: (passed, failed, skipped).\<close>

fun bump :: "int \<times> int \<times> int \<Rightarrow> StatusFailure \<Rightarrow> int \<times> int \<times> int" where
  "bump (p, f, s) failure =
     (case sf_status failure of
        FPassed \<Rightarrow> (p + 1, f, s)
      | FFailed \<Rightarrow> (p, f + 1, s)
      | FSkipped \<Rightarrow> (p, f, s + 1))"

definition failuresByStatus :: "StatusFailure list \<Rightarrow> int \<times> int \<times> int" where
  "failuresByStatus failures = foldl bump (0, 0, 0) failures"

definition actualUploaded :: "Reporter1 \<Rightarrow> int \<Rightarrow> Summary" where
  "actualUploaded st duration =
     (case failuresByStatus (uploadFailures1 st) of
        (p, f, s) \<Rightarrow>
          \<lparr> sm_total = totalTests st - int (length (uploadFailures1 st)),
            sm_passed = passedTests st - p,
            sm_failed = failedTests st - f,
            sm_skipped = skippedTests st - s,
            sm_duration = duration \<rparr>)"

text \<open>
  \<^verbatim>\<open>onEnd\<close> of this revision (it prints the failure block with
  \<^verbatim>\<open>console.error\<close>; the templates are those of the later revision without its
  deduplicated branch).
\<close>

definition onEnd1 :: "Reporter1 \<Rightarrow> int \<Rightarrow> thrown + unit \<Rightarrow> Reporter1 \<times> thrown option" where
  "onEnd1 st duration completion =
     (let st2 = st\<lparr>out := out st @
             (if uploadFailures1 st \<noteq> [] then
                [WarnFailedToUpload (int (length (uploadFailures1 st)))] @
                concat (map (\<lambda>failure. [WarnFailureTitle (sf_testTitle failure),
                                          WarnFailureError (case sf_error failure of
                                                              Some m \<Rightarrow> m | None \<Rightarrow> ''undefined'')])
                          (uploadFailures1 st)) @
                [WarnIncomplete (totalTests st) (int (length (uploadFailures1 st)))]
              else [])\<rparr> in
      case testRunId st2 of
        None \<Rightarrow> (st2, None)
      | Some runId \<Rightarrow>
          if \<not> truthy (Some runId) then (st2, None)
          else
            (let st3 = st2\<lparr>out := out st2 @
                         [CallCompleteTestRun runId (actualUploaded st2 duration)]\<rparr>
             in case completion of
                  Inl e \<Rightarrow> handleError st3 ''Failed to send test results'' e
                | Inr _ \<Rightarrow>
                    (st3\<lparr>out := out st3 @
                        [LogViewRun runId,
                         (if uploadFailures1 st3 \<noteq> []
                          then LogPartlyUploaded
                                 (totalTests st3 - int (length (uploadFailures1 st3)))
                                 (totalTests st3)
                          else LogAllUploaded (totalTests st3))]\<rparr>, None)))"

section \<open>The batched reporter\<close>

text \<open>
  A queued item is a converted result with its attachments (the
  \<^verbatim>\<open>testResultId\<close> of a pending attachment is only filled in to be passed to
  \<^verbatim>\<open>uploadAttachment\<close>, so an item keeps the attachments themselves). A flush
  promise is in flight with the batch it captured, or has settled.
\<close>

record QueueItem =
  qi_result :: QAStudioTestResult
  qi_attachments :: "Attachment list"

datatype Flush = InFlight "QueueItem list" | Settled

record BatchReporter = ReporterBase +
  resultQueue :: "QueueItem list"
  flushPromises_b :: "Flush list"

definition newBatchReporter :: "Options \<Rightarrow> BatchReporter" where
  "newBatchReporter opts =
     \<lparr> options = opts, testRunId = None, tests = Map.empty,
       totalTests = 0, passedTests = 0, failedTests = 0, skippedTests = 0, out = [],
       resultQueue = [], flushPromises_b = [] \<rparr>"

text \<open>
  \<^verbatim>\<open>flushResults\<close> up to the point where the request is made: it copies the queue,
  submits the results of the copy and tracks the promise. It has no \<^verbatim>\<open>await\<close>, so
  it runs to its end when it is called.
\<close>

definition flushResults :: "BatchReporter \<Rightarrow> BatchReporter" where
  "flushResults st =
     (case testRunId st of
        None \<Rightarrow> st
      | Some runId \<Rightarrow>
          if resultQueue st = [] \<or> \<not> truthy (Some runId) then st
          else (let batch = resultQueue st;
                    results = map qi_result batch
                in st\<lparr>out := out st @ [CallSubmitTestResults runId results],
                      flushPromises_b := flushPromises_b st @ [InFlight batch]\<rparr>))"

text \<open>
  \<^verbatim>\<open>uploadBatchAttachments\<close>: the map from title to result identifier (a later entry
  of the response overwrites an earlier one), then one upload per attachment of every
  item of the batch whose title has a truthy identifier. The outcome of an upload only
  decides which verbose line is logged, and is left out.
\<close>

definition titleToResultId :: "ResultId list \<Rightarrow> string \<rightharpoonup> string" where
  "titleToResultId resultIds =
     foldl (\<lambda>m resultId. m(ri_title resultId \<mapsto> ri_testResultId resultId)) Map.empty resultIds"

definition uploadBatchAttachments :: "QueueItem list \<Rightarrow> ResultId list \<Rightarrow> effect list" where
  "uploadBatchAttachments batch resultIds =
     concat (map (\<lambda>item.
        case titleToResultId resultIds (qa_title (qi_result item)) of
          None \<Rightarrow> []
        | Some testResultId \<Rightarrow>
            if truthy (Some testResultId) \<and> qi_attachments item \<noteq> []
            then map (CallUploadAttachment testResultId) (qi_attachments item)
            else []) batch)"

text \<open>
  The handlers of the flush promise, run when the request of \<open>batch\<close> settles with
  \<open>outcome\<close>: the \<^verbatim>\<open>.then\<close> prunes the queue by the titles of
  \<^verbatim>\<open>response.results\<close>, the \<^verbatim>\<open>.catch\<close> calls \<^verbatim>\<open>handleError\<close> and leaves the
  queue alone. The result is the state and what the flush promise rejects with, if
  anything.
\<close>

definition flushSettled ::
  "BatchReporter \<Rightarrow> QueueItem list \<Rightarrow> thrown + SubmitTestResultsResponse
     \<Rightarrow> BatchReporter \<times> thrown option" where
  "flushSettled st batch outcome =
     (case outcome of
        Inr response \<Rightarrow>
          (let st1 =
                 (case sr_results response of
                    None \<Rightarrow> st
                  | Some [] \<Rightarrow> st
                  | Some (r # rs) \<Rightarrow>
                      (let processedTitles = set (map ri_title (r # rs))
                       in st\<lparr>resultQueue :=
                               filter (\<lambda>item. qa_title (qi_result item) \<notin> processedTitles)
                                 (resultQueue st)\<rparr>));
               st2 = st1\<lparr>out := out st1 @
                       (case sr_errors response of
                          None \<Rightarrow> []
                        | Some errs \<Rightarrow>
                            concat (map (\<lambda>err. log (options st1) (LogResultError (re_error err))) errs))\<rparr>;
               st3 = (case sr_results response of
                        None \<Rightarrow> st2
                      | Some [] \<Rightarrow> st2
                      | Some (r # rs) \<Rightarrow>
                          st2\<lparr>out := out st2 @ uploadBatchAttachments batch (r # rs)\<rparr>)
           in (st3, None))
      | Inl error \<Rightarrow>
          (case handleError st ''Failed to send batch'' error of
             (st1, None) \<Rightarrow>
               (st1\<lparr>out := out st1 @
                   log (options st1) (LogBatchFailed (int (length (resultQueue st1))))\<rparr>, None)
           | (st1, Some e) \<Rightarrow> (st1, Some e)))"

text \<open>The flush promise at position \<open>i\<close> settles with \<open>outcome\<close>.\<close>

definition settleFlush ::
  "BatchReporter \<Rightarrow> nat \<Rightarrow> thrown + SubmitTestResultsResponse \<Rightarrow> BatchReporter" where
  "settleFlush st i outcome =
     (if i < length (flushPromises_b st) then
        (case flushPromises_b st ! i of
           InFlight batch \<Rightarrow>
             (fst (flushSettled st batch outcome))
               \<lparr>flushPromises_b := (flushPromises_b st)[i := Settled]\<rparr>
         | Settled \<Rightarrow> st)
      else st)"

definition onTestEnd_b :: "BatchReporter \<Rightarrow> TestCase \<Rightarrow> TestResult \<Rightarrow> BatchReporter" where
  "onTestEnd_b st test result =
     (case tests st (getTestId test) of
        None \<Rightarrow> st
      | Some testData \<Rightarrow>
          (let st1 = st\<lparr>tests := (tests st)(getTestId test \<mapsto> (fst testData, result))\<rparr> in
           if tr_retry result = tc_retries test then
             (let st2 = updateCounters result st1 in
              if truthy (testRunId st2) then
                (let qaResult = convertTestResult test result;
                     st3 = st2\<lparr>resultQueue := resultQueue st2 @
                                [\<lparr>qi_result = qaResult,
                                  qi_attachments = filteredAttachments (options st2) result\<rparr>]\<rparr>
                 in if int (length (resultQueue st3)) \<ge> opt_batchSize (options st3)
                    then flushResults st3
                    else st3)
              else st2)
           else st1))"

text \<open>
  \<^verbatim>\<open>sendTestResults\<close> of the batched reporter: flushes what is queued, then waits
  for every flush promise; \<open>client i\<close> is what the request at position \<open>i\<close> settles
  with. The promises settle in the order they were made.
\<close>

fun settleAll ::
  "(nat \<Rightarrow> thrown + SubmitTestResultsResponse) \<Rightarrow> nat \<Rightarrow> Flush list \<Rightarrow> BatchReporter
     \<Rightarrow> BatchReporter" where
  "settleAll client i [] st = st"
| "settleAll client i (InFlight batch # fs) st =
     settleAll client (Suc i) fs (fst (flushSettled st batch (client i)))"
| "settleAll client i (Settled # fs) st = settleAll client (Suc i) fs st"

definition sendTestResults_b ::
  "(nat \<Rightarrow> thrown + SubmitTestResultsResponse) \<Rightarrow> BatchReporter \<Rightarrow> BatchReporter" where
  "sendTestResults_b client st =
     (if \<not> truthy (testRunId st) then st
      else (let st1 = (if resultQueue st \<noteq> [] then flushResults st else st) in
            if flushPromises_b st1 \<noteq> []
            then (settleAll client 0 (flushPromises_b st1) st1)\<lparr>flushPromises_b := []\<rparr>
            else st1))"


text \<open>
  \<^verbatim>\<open>onEnd\<close> of the batched reporter: it drains and then reports the four counters
  as they are; this revision keeps no record of failed uploads.
\<close>

definition onEnd_b ::
  "(nat \<Rightarrow> thrown + SubmitTestResultsResponse) \<Rightarrow> BatchReporter \<Rightarrow> int \<Rightarrow> thrown + unit
     \<Rightarrow> BatchReporter \<times> thrown option" where
  "onEnd_b client st duration completion =
     (let st1 = sendTestResults_b client st in
      case testRunId st1 of
        None \<Rightarrow> (st1, None)
      | Some runId \<Rightarrow>
          if \<not> truthy (Some runId) then (st1, None)
          else
            (let st2 = st1\<lparr>out := out st1 @
                         [CallCompleteTestRun runId
                            \<lparr> sm_total = totalTests st1, sm_passed = passedTests st1,
                              sm_failed = failedTests st1, sm_skipped = skippedTests st1,
                              sm_duration = duration \<rparr>]\<rparr>
             in case completion of
                  Inl e \<Rightarrow> handleError st2 ''Failed to send test results'' e
                | Inr _ \<Rightarrow> (st2\<lparr>out := out st2 @ [LogViewRun runId]\<rparr>, None)))"

section \<open>Notions the properties are stated with\<close>

text \<open>The four attempted counters: (total, passed, failed, skipped).\<close>

definition counters :: "'a ReporterBase_scheme \<Rightarrow> int \<times> int \<times> int \<times> int" where
  "counters st = (totalTests st, passedTests st, failedTests st, skippedTests st)"

text \<open>
  What the specification says a final result does to the counters: the total and
  exactly one bucket grow by one (passed to passed; failed or timedOut to failed;
  skipped or interrupted to skipped).
\<close>

fun counted :: "TestStatus \<Rightarrow> int \<times> int \<times> int \<times> int \<Rightarrow> int \<times> int \<times> int \<times> int" where
  "counted Passed (t, p, f, s) = (t + 1, p + 1, f, s)"
| "counted Failed (t, p, f, s) = (t + 1, p, f + 1, s)"
| "counted TimedOut (t, p, f, s) = (t + 1, p, f + 1, s)"
| "counted Skipped (t, p, f, s) = (t + 1, p, f, s + 1)"
| "counted Interrupted (t, p, f, s) = (t + 1, p, f, s + 1)"

text \<open>By how much the total exceeds the sum of the three buckets.\<close>

definition surplus :: "'a ReporterBase_scheme \<Rightarrow> int" where
  "surplus st = totalTests st - (passedTests st + failedTests st + skippedTests st)"

subsection \<open>Concrete inputs\<close>

definition exampleOptions :: Options where
  "exampleOptions =
     \<lparr> opt_createTestRun = True, opt_testRunId = None, opt_verbose = False,
       opt_silent = True, opt_uploadScreenshots = True, opt_uploadVideos = True,
       opt_batchSize = 2 \<rparr>"

definition exampleTest :: "string \<Rightarrow> TestCase" where
  "exampleTest name = \<lparr> tc_title = name, tc_titlePath = [''suite'', name], tc_retries = 0 \<rparr>"

definition exampleResult :: "TestStatus \<Rightarrow> TestResult" where
  "exampleResult status =
     \<lparr> tr_retry = 0, tr_status = status, tr_duration = 5, tr_buffers = [] \<rparr>"

text \<open>A client that accepts the record titled \<open>name\<close> and every attachment.\<close>

definition acceptingTransport :: "string \<Rightarrow> Transport" where
  "acceptingTransport name =
     \<lparr> t_submit = Inr \<lparr> sr_processedCount = 1,
                         sr_results = Some [\<lparr>ri_testResultId = ''r1'', ri_title = name\<rparr>],
                         sr_errors = None \<rparr>,
       t_upload = (\<lambda>i. Inr ()) \<rparr>"

text \<open>
  A run in which one test ends before the test run exists and one after it: the first
  record waits for the readiness promise, the second is sent at once.
\<close>

definition exampleRun :: "event list" where
  "exampleRun =
     [OnTestBegin (exampleTest ''early'') (exampleResult Failed),
      OnTestEnd (exampleTest ''early'') (exampleResult Failed) (acceptingTransport ''early''),
      OnBegin (Inr ''run-1''),
      OnTestBegin (exampleTest ''login'') (exampleResult Passed),
      OnTestEnd (exampleTest ''login'') (exampleResult Passed) (acceptingTransport ''login''),
      OnEnd 10 (Inr ())]"

subsection \<open>Further notions and inputs\<close>

text \<open>The attachment uploads among the requests: (result identifier, attachment).\<close>

fun upload_of :: "effect \<Rightarrow> (string \<times> Attachment) list" where
  "upload_of (CallUploadAttachment testResultId a) = [(testResultId, a)]"
| "upload_of _ = []"

definition uploadCalls :: "effect list \<Rightarrow> (string \<times> Attachment) list" where
  "uploadCalls es = concat (map upload_of es)"

text \<open>
  The failure records of the tracked promises that fulfilled with a failure, in the
  order the promises were tracked.
\<close>

fun failuresOf :: "PendingUpload list \<Rightarrow> UploadFailure list" where
  "failuresOf [] = []"
| "failuresOf (p # ps) =
     (case promise p of
        Done (Fulfilled (Failure e)) \<Rightarrow> \<lparr>uf_testTitle = testTitle p, uf_error = e\<rparr> # failuresOf ps
      | _ \<Rightarrow> failuresOf ps)"

text \<open>A client that accepts the record and fails every attachment upload.\<close>

definition failingUploads :: Transport where
  "failingUploads =
     \<lparr> t_submit = Inr \<lparr> sr_processedCount = 1,
                         sr_results = Some [\<lparr>ri_testResultId = ''r1'', ri_title = ''login''\<rparr>],
                         sr_errors = None \<rparr>,
       t_upload = (\<lambda>i. Inl (JsError ''disk full'')) \<rparr>"

definition shot :: Attachment where
  "shot = \<lparr> att_name = ''shot.png'', att_contentType = ''image/png'', att_data = [1, 2, 3],
            att_type = Screenshot \<rparr>"

text \<open>A verbose reporter whose test run exists and which has seen one test begin.\<close>

definition readyReporter :: Reporter where
  "readyReporter =
     onTestBegin (fst (onBegin (newReporter (exampleOptions\<lparr>opt_verbose := True\<rparr>)) (Inr ''run-1'')))
       (exampleTest ''login'') (exampleResult Failed)"

definition shotResult :: TestResult where
  "shotResult = (exampleResult Failed)\<lparr>tr_buffers := [shot]\<rparr>"

text \<open>The requests that complete a test run: (run identifier, summary).\<close>

fun completion_of :: "effect \<Rightarrow> (string \<times> Summary) list" where
  "completion_of (CallCompleteTestRun runId summary) = [(runId, summary)]"
| "completion_of _ = []"

definition completions :: "effect list \<Rightarrow> (string \<times> Summary) list" where
  "completions es = concat (map completion_of es)"

text \<open>The requests that submit results: (run identifier, results).\<close>

fun submit_of :: "effect \<Rightarrow> (string \<times> QAStudioTestResult list) list" where
  "submit_of (CallSubmitTestResults runId results) = [(runId, results)]"
| "submit_of _ = []"

definition submitCalls :: "effect list \<Rightarrow> (string \<times> QAStudioTestResult list) list" where
  "submitCalls es = concat (map submit_of es)"

text \<open>A tracked promise that has settled: fulfilled or rejected.\<close>

definition isSettled :: "PendingUpload \<Rightarrow> bool" where
  "isSettled p = (case promise p of Done r \<Rightarrow> True | Waiting qa atts net \<Rightarrow> False)"

text \<open>
  What holds of the tracked promises in every state a run reaches: once the readiness
  promise is resolved all of them have settled; and before that \<^verbatim>\<open>state.testRunId\<close>
  is not set.
\<close>

definition settledWhenReady :: "Reporter \<Rightarrow> bool" where
  "settledWhenReady st =
     (if testRunReady st then list_all isSettled (flushPromises st)
      else \<not> truthy (testRunId st))"

text \<open>A test ends before \<^verbatim>\<open>onBegin\<close> has created the test run.\<close>

definition gateRun :: "event list" where
  "gateRun =
     [OnTestBegin (exampleTest ''early'') (exampleResult Failed),
      OnTestEnd (exampleTest ''early'') (exampleResult Failed) (acceptingTransport ''early''),
      OnBegin (Inr ''run-1'')]"

text \<open>A client whose submission throws.\<close>

definition throwingTransport :: Transport where
  "throwingTransport =
     \<lparr> t_submit = Inl (JsError ''503 Service Unavailable''), t_upload = (\<lambda>i. Inr ()) \<rparr>"

text \<open>Whether an event is a call of \<^verbatim>\<open>onBegin\<close>.\<close>

fun isOnBegin :: "event \<Rightarrow> bool" where
  "isOnBegin (OnBegin created) = True"
| "isOnBegin _ = False"

text \<open>A reporter with a test run and two passed tests, the upload of the first of which failed.\<close>

definition lossyReporter :: Reporter where
  "lossyReporter =
     onTestEnd
       (onTestBegin
          (onTestEnd
             (onTestBegin (fst (onBegin (newReporter exampleOptions) (Inr ''run-1'')))
                (exampleTest ''login'') (exampleResult Passed))
             (exampleTest ''login'') (exampleResult Passed) throwingTransport)
          (exampleTest ''logout'') (exampleResult Passed))
       (exampleTest ''logout'') (exampleResult Passed) (acceptingTransport ''logout'')"


text \<open>A reporter in which a test ended before \<^verbatim>\<open>onBegin\<close> finished: its promise waits.\<close>

definition waitingReporter :: Reporter where
  "waitingReporter =
     onTestEnd
       (onTestBegin (newReporter exampleOptions) (exampleTest ''early'') (exampleResult Failed))
       (exampleTest ''early'') (exampleResult Failed) (acceptingTransport ''early'')"

text \<open>Hooks called after \<^verbatim>\<open>onBegin\<close>.\<close>

definition laterEvents :: "event list" where
  "laterEvents =
     [OnTestBegin (exampleTest ''login'') (exampleResult Passed),
      OnTestEnd (exampleTest ''login'') (exampleResult Passed) throwingTransport,
      OnEnd 10 (Inr ())]"

text \<open>
  One test titled \<^verbatim>\<open>login\<close> run in a project: the title path starts with the
  project, the title is the same in every project.
\<close>

definition projectTest :: "string \<Rightarrow> TestCase" where
  "projectTest project =
     \<lparr> tc_title = ''login'', tc_titlePath = [project, ''login.spec.ts'', ''login''],
       tc_retries = 0 \<rparr>"

text \<open>
  A batched reporter (batch size 2) after the test ended in two projects: both records
  are queued and the flush that the second one triggered is in flight.
\<close>

definition twoProjects :: BatchReporter where
  "twoProjects =
     onTestEnd_b
       (onTestBegin
          (onTestEnd_b
             (onTestBegin (fst (onBegin1 (newBatchReporter exampleOptions) (Inr ''run-1'')))
                (projectTest ''chromium'') (exampleResult Passed))
             (projectTest ''chromium'') (exampleResult Passed))
          (projectTest ''firefox'') (exampleResult Failed))
       (projectTest ''firefox'') (exampleResult Failed)"

text \<open>A response that lists one processed result titled \<^verbatim>\<open>login\<close> and one error for the same title.\<close>

definition oneConfirmed :: SubmitTestResultsResponse where
  "oneConfirmed =
     \<lparr> sr_processedCount = 1,
       sr_results = Some [\<lparr>ri_testResultId = ''r1'', ri_title = ''login''\<rparr>],
       sr_errors = Some [\<lparr>re_testTitle = ''login'', re_error = ''rejected''\<rparr>] \<rparr>"

text \<open>
  A batched reporter (batch size 2) after three tests ended: \<^verbatim>\<open>login\<close> in the
  project chromium, \<^verbatim>\<open>logout\<close>, and \<^verbatim>\<open>login\<close> in the project firefox. The
  second record triggered a flush of two records and the third a flush of all three;
  both requests are in flight.
\<close>

definition overlappingFlushes :: BatchReporter where
  "overlappingFlushes =
     onTestEnd_b
       (onTestBegin
          (onTestEnd_b
             (onTestBegin
                (onTestEnd_b
                   (onTestBegin (fst (onBegin1 (newBatchReporter exampleOptions) (Inr ''run-1'')))
                      (projectTest ''chromium'') (exampleResult Passed))
                   (projectTest ''chromium'') (exampleResult Passed))
                (exampleTest ''logout'') (exampleResult Passed))
             (exampleTest ''logout'') (exampleResult Passed))
          (projectTest ''firefox'') (exampleResult Failed))
       (projectTest ''firefox'') (exampleResult Failed)"

text \<open>A response that lists the two results of the first of these flushes as processed.\<close>

definition bothConfirmed :: SubmitTestResultsResponse where
  "bothConfirmed =
     \<lparr> sr_processedCount = 2,
       sr_results = Some [\<lparr>ri_testResultId = ''r1'', ri_title = ''login''\<rparr>,
                          \<lparr>ri_testResultId = ''r2'', ri_title = ''logout''\<rparr>],
       sr_errors = None \<rparr>"

text \<open>
  A client whose submission rejects with a value that has no string rendering, such as
  \<^verbatim>\<open>Object.create(null)\<close>: \<^verbatim>\<open>String\<close> of it throws a \<^verbatim>\<open>TypeError\<close>.
\<close>

definition unrenderableTransport :: Transport where
  "unrenderableTransport =
     \<lparr> t_submit = Inl (JsUnrenderable (JsError ''Cannot convert object to primitive value'')),
       t_upload = (\<lambda>i. Inr ()) \<rparr>"

text \<open>A run with a test run in which the one submission rejects with that value.\<close>

definition unrenderableRun :: "event list" where
  "unrenderableRun =
     [OnBegin (Inr ''run-1''),
      OnTestBegin (exampleTest ''login'') (exampleResult Passed),
      OnTestEnd (exampleTest ''login'') (exampleResult Passed) unrenderableTransport,
      OnEnd 10 (Inr ())]"

text \<open>Scenario B of the specification: the creation of the test run fails with \<^verbatim>\<open>quota exceeded\<close>, five tests end, then the run ends.\<close>

definition quotaRun :: "event list" where
  "quotaRun =
     OnBegin (Inl (JsError ''quota exceeded'')) #
     concat (map (\<lambda>name. [OnTestBegin (exampleTest name) (exampleResult Passed),
                           OnTestEnd (exampleTest name) (exampleResult Passed)
                             (acceptingTransport name)])
               [''t1'', ''t2'', ''t3'', ''t4'', ''t5'']) @
     [OnEnd 10 (Inr ())]"

section \<open>Properties\<close>

text \<open>The equations that evaluate the hooks on a concrete input.\<close>

lemmas hooks_simps = run.simps step.simps onBegin_def onTestBegin_def onTestEnd_def onEnd_def
  sendTestResults_def promiseAll_def resolveReady_def settlePending_def sendPromise_def
  sendTestResult_def uploadAttachments_def then_p_def catch_p_def handleError_def
  updateCounters_def convertTestResult_def filteredAttachments_def getTestId_def
  reportFailures_def calculateUploadedCounts_def newReporter_def log_def mapTestStatus_def
  exampleOptions_def exampleTest_def exampleResult_def acceptingTransport_def Let_def

subsection \<open>Frame lemmas\<close>

lemma counters_updateCounters:
  "counters (updateCounters result st) = counted (tr_status result) (counters st)"
  by (cases "tr_status result") (simp_all add: counters_def updateCounters_def)

lemma counters_onTestEnd:
  "counters (onTestEnd st test result net) =
     (if tests st (getTestId test) \<noteq> None \<and> tr_retry result = tc_retries test
      then counted (tr_status result) (counters st) else counters st)"
  by (cases "tr_status result")
     (auto simp: onTestEnd_def counters_def updateCounters_def settlePending_def Let_def
           split: option.splits Promise.splits)

lemma counters_onTestEnd1:
  "counters (onTestEnd1 st test result net) =
     (if tests st (getTestId test) \<noteq> None \<and> tr_retry result = tc_retries test
      then counted (tr_status result) (counters st) else counters st)"
  by (cases "tr_status result")
     (auto simp: onTestEnd1_def counters_def updateCounters_def Let_def
           split: option.splits settled.splits sum.splits)

lemma flushResults_counters:
  "totalTests (flushResults st) = totalTests st"
  "passedTests (flushResults st) = passedTests st"
  "failedTests (flushResults st) = failedTests st"
  "skippedTests (flushResults st) = skippedTests st"
  by (simp_all add: flushResults_def Let_def split: option.splits)

lemma counters_onTestEnd_b:
  "counters (onTestEnd_b st test result) =
     (if tests st (getTestId test) \<noteq> None \<and> tr_retry result = tc_retries test
      then counted (tr_status result) (counters st) else counters st)"
  by (cases "tr_status result")
     (auto simp: onTestEnd_b_def flushResults_counters counters_def updateCounters_def Let_def
           split: option.splits)

lemma counted_surplus:
  "counted s (t, p, f, k) = (t', p', f', k') \<Longrightarrow> t' - (p' + f' + k') = t - (p + f + k)"
  by (cases s) auto

lemma surplus_counters:
  assumes "counters st' = counted s (counters st) \<or> counters st' = counters st"
  shows "surplus st' = surplus st"
proof -
  obtain t p f k where c: "counters st' = (t, p, f, k)" by (cases "counters st'") auto
  then have s: "surplus st' = t - (p + f + k)" by (simp add: counters_def surplus_def)
  from assms show ?thesis
  proof
    assume "counters st' = counted s (counters st)"
    with c have "counted s (totalTests st, passedTests st, failedTests st, skippedTests st)
                   = (t, p, f, k)"
      by (simp add: counters_def)
    from counted_surplus[OF this] s show ?thesis by (simp add: surplus_def)
  next
    assume "counters st' = counters st"
    then show ?thesis by (simp add: counters_def surplus_def)
  qed
qed

lemma handleError_frame:
  "totalTests (fst (handleError st m e)) = totalTests st"
  "passedTests (fst (handleError st m e)) = passedTests st"
  "failedTests (fst (handleError st m e)) = failedTests st"
  "skippedTests (fst (handleError st m e)) = skippedTests st"
  "testRunId (fst (handleError st m e)) = testRunId st"
  "options (fst (handleError st m e)) = options st"
  "tests (fst (handleError st m e)) = tests st"
  "ReporterBase.more (fst (handleError st m e)) = ReporterBase.more st"
  by (simp_all add: handleError_def Let_def split: sum.splits)

lemma handleError_out: "(fst (handleError st m e))\<lparr>out := []\<rparr> = st\<lparr>out := []\<rparr>"
  by (simp add: handleError_def Let_def split: sum.splits)

lemma resolveReady_frame:
  "totalTests (resolveReady st) = totalTests st"
  "passedTests (resolveReady st) = passedTests st"
  "failedTests (resolveReady st) = failedTests st"
  "skippedTests (resolveReady st) = skippedTests st"
  "testRunId (resolveReady st) = testRunId st"
  "options (resolveReady st) = options st"
  "tests (resolveReady st) = tests st"
  "uploadFailures (resolveReady st) = uploadFailures st"
  "testRunCreationError (resolveReady st) = testRunCreationError st"
  by (simp_all add: resolveReady_def Let_def)

lemma resolveReady_ready: "testRunReady (resolveReady st)"
  by (simp add: resolveReady_def Let_def)

lemma resolveReady_idem: "testRunReady st \<Longrightarrow> resolveReady st = st"
  by (simp add: resolveReady_def)

lemma onBegin_counters: "counters (fst (onBegin st created)) = counters st"
  by (auto simp: onBegin_def counters_def Let_def resolveReady_frame handleError_frame
      split: sum.splits)

lemma sendTestResults_frame:
  assumes "sendTestResults st = Some (Inr st')"
  shows "totalTests st' = totalTests st" "passedTests st' = passedTests st"
    "failedTests st' = failedTests st" "skippedTests st' = skippedTests st"
    "testRunId st' = testRunId st" "options st' = options st"
    "testRunCreationError st' = testRunCreationError st" "testRunReady st' = testRunReady st"
  using assms
  by (auto simp: sendTestResults_def Let_def split: if_splits option.splits sum.splits)

lemma onEnd_defined:
  assumes "sendTestResults st = Some (Inr st1)"
  shows "onEnd st duration completion \<noteq> None"
  using assms by (simp add: onEnd_def Let_def split: option.splits sum.splits)

lemma onEnd_Inr:
  assumes "sendTestResults st = Some (Inr st1)" "onEnd st duration completion = Some r"
  shows "(fst r)\<lparr>out := []\<rparr> = st1\<lparr>out := []\<rparr>"
proof (cases "testRunId st1")
  case None
  with assms show ?thesis by (auto simp: onEnd_def Let_def)
next
  case (Some runId)
  show ?thesis
  proof (cases completion)
    case (Inl e)
    with assms Some show ?thesis
      by (auto simp: onEnd_def Let_def handleError_out split: if_splits)
  next
    case (Inr u)
    with assms Some show ?thesis
      by (auto simp: onEnd_def Let_def split: if_splits)
  qed
qed

lemma onEnd_shape:
  assumes "onEnd st duration completion = Some r"
  shows "\<exists>st1. (sendTestResults st = Some (Inr st1) \<or> st1 = st) \<and>
           (fst r)\<lparr>out := []\<rparr> = st1\<lparr>out := []\<rparr>"
proof (cases "sendTestResults st")
  case None
  with assms show ?thesis by (simp add: onEnd_def)
next
  case (Some a)
  show ?thesis
  proof (cases a)
    case (Inl e)
    with Some assms have "r = handleError st ''Failed to send test results'' e"
      by (simp add: onEnd_def)
    then show ?thesis using handleError_out[of st "''Failed to send test results''" e] by auto
  next
    case (Inr st1)
    with Some onEnd_Inr[of st st1 duration completion r] assms show ?thesis by auto
  qed
qed

lemma out_irrelevant:
  assumes "(a::Reporter)\<lparr>out := []\<rparr> = b\<lparr>out := []\<rparr>"
  shows "totalTests a = totalTests b" "passedTests a = passedTests b"
    "failedTests a = failedTests b" "skippedTests a = skippedTests b"
    "testRunId a = testRunId b" "options a = options b" "tests a = tests b"
    "testRunCreationError a = testRunCreationError b" "testRunReady a = testRunReady b"
    "flushPromises a = flushPromises b" "uploadFailures a = uploadFailures b"
  using arg_cong[OF assms, of totalTests] arg_cong[OF assms, of passedTests]
    arg_cong[OF assms, of failedTests] arg_cong[OF assms, of skippedTests]
    arg_cong[OF assms, of testRunId] arg_cong[OF assms, of options]
    arg_cong[OF assms, of tests] arg_cong[OF assms, of testRunCreationError]
    arg_cong[OF assms, of testRunReady] arg_cong[OF assms, of flushPromises]
    arg_cong[OF assms, of uploadFailures]
  by simp_all

lemma onEnd_frame:
  assumes "onEnd st duration completion = Some r"
  shows "totalTests (fst r) = totalTests st" "passedTests (fst r) = passedTests st"
    "failedTests (fst r) = failedTests st" "skippedTests (fst r) = skippedTests st"
    "testRunId (fst r) = testRunId st" "options (fst r) = options st"
    "testRunCreationError (fst r) = testRunCreationError st" "testRunReady (fst r) = testRunReady st"
proof -
  from onEnd_shape[OF assms] obtain st1 where
    h: "sendTestResults st = Some (Inr st1) \<or> st1 = st" "(fst r)\<lparr>out := []\<rparr> = st1\<lparr>out := []\<rparr>"
    by blast
  from h(1) have "totalTests st1 = totalTests st \<and> passedTests st1 = passedTests st \<and>
    failedTests st1 = failedTests st \<and> skippedTests st1 = skippedTests st \<and>
    testRunId st1 = testRunId st \<and> options st1 = options st \<and>
    testRunCreationError st1 = testRunCreationError st \<and> testRunReady st1 = testRunReady st"
    using sendTestResults_frame[of st st1] by auto
  with out_irrelevant[OF h(2)]
  show "totalTests (fst r) = totalTests st" "passedTests (fst r) = passedTests st"
    "failedTests (fst r) = failedTests st" "skippedTests (fst r) = skippedTests st"
    "testRunId (fst r) = testRunId st" "options (fst r) = options st"
    "testRunCreationError (fst r) = testRunCreationError st" "testRunReady (fst r) = testRunReady st"
    by simp_all
qed

lemma step_surplus:
  assumes "step e st = Some st'"
  shows "surplus st' = surplus st"
proof (cases e)
  case (OnBegin created)
  with assms have "counters st' = counters st" using onBegin_counters[of st created] by auto
  then show ?thesis by (simp add: surplus_def counters_def)
next
  case (OnTestBegin test result)
  with assms show ?thesis by (auto simp: surplus_def onTestBegin_def)
next
  case (OnTestEnd test result net)
  with assms have "st' = onTestEnd st test result net" by simp
  with counters_onTestEnd[of st test result net]
  have "counters st' = counted (tr_status result) (counters st) \<or> counters st' = counters st"
    by (auto split: if_splits)
  then show ?thesis by (rule surplus_counters)
next
  case (OnEnd duration completion)
  with assms obtain r where "onEnd st duration completion = Some r" "st' = fst r"
    by (auto split: option.splits)
  with onEnd_frame[of st duration completion r] show ?thesis
    by (simp add: surplus_def)
qed

lemma run_surplus: "run es st = Some st' \<Longrightarrow> surplus st' = surplus st"
proof (induction es arbitrary: st)
  case Nil
  then show ?case by simp
next
  case (Cons e es)
  then obtain st1 where "step e st = Some st1" "run es st1 = Some st'"
    by (auto split: option.splits)
  with Cons.IH[of st1] step_surplus[of e st st1] show ?case by simp
qed

subsection \<open>The status mapping\<close>

text \<open>
  C10. \<^verbatim>\<open>mapTestStatus\<close> is defined on every string: \<^verbatim>\<open>passed\<close> maps to
  \<^verbatim>\<open>passed\<close>, \<^verbatim>\<open>failed\<close> to \<^verbatim>\<open>failed\<close>, \<^verbatim>\<open>timedOut\<close> to \<^verbatim>\<open>timedout\<close>,
  \<^verbatim>\<open>skipped\<close> and \<^verbatim>\<open>interrupted\<close> to \<^verbatim>\<open>skipped\<close>, and any other string to
  \<^verbatim>\<open>failed\<close>. Hence the status of a converted record is one of the four declared
  values, and an interrupted test is reported as skipped.
\<close>

theorem mapTestStatus_cases:
  "mapTestStatus ''passed'' = ''passed'' \<and>
   mapTestStatus ''failed'' = ''failed'' \<and>
   mapTestStatus ''timedOut'' = ''timedout'' \<and>
   mapTestStatus ''skipped'' = ''skipped'' \<and>
   mapTestStatus ''interrupted'' = ''skipped'' \<and>
   (s \<notin> {''passed'', ''failed'', ''timedOut'', ''skipped'', ''interrupted''}
      \<longrightarrow> mapTestStatus s = ''failed'') \<and>
   mapTestStatus s \<in> {''passed'', ''failed'', ''skipped'', ''timedout''} \<and>
   qa_status (convertTestResult test result) \<in> {''passed'', ''failed'', ''skipped'', ''timedout''} \<and>
   qa_status (convertTestResult test (result\<lparr>tr_status := Interrupted\<rparr>)) = ''skipped''"
  by (simp add: mapTestStatus_def convertTestResult_def)

theorem mapTestStatus_cases_witness:
  "''flaky'' \<notin> {''passed'', ''failed'', ''timedOut'', ''skipped'', ''interrupted''} \<and>
   mapTestStatus ''flaky'' = ''failed''"
  using mapTestStatus_cases[of "''flaky''"] by simp

subsection \<open>The upload task\<close>

lemma uploadAttachments_fst: "fst (uploadAttachments opts upload rid atts) = Fulfilled ()"
  by (simp add: uploadAttachments_def)

lemma sendTestResult_fst:
  "fst (sendTestResult st net qa atts) =
     (if truthy (testRunId st)
      then (case t_submit net of Inl e \<Rightarrow> Rejected e | Inr response \<Rightarrow> Fulfilled ())
      else Fulfilled ())"
  by (auto simp: sendTestResult_def then_p_def uploadAttachments_fst Let_def
      split: option.splits sum.splits list.splits)

lemma sendPromise_outcome:
  "fst (sendPromise st net qa atts) =
     (if \<not> truthy (testRunId st)
      then Fulfilled (Failure (case testRunCreationError st of
                                 Some m \<Rightarrow> ''Test run creation failed: '' @ m
                               | None \<Rightarrow> ''Test run was not created successfully''))
      else (case t_submit net of
              Inl e \<Rightarrow> (case message_of e of
                           Inl t \<Rightarrow> Rejected t
                         | Inr m \<Rightarrow> Fulfilled (Failure m))
            | Inr response \<Rightarrow> Fulfilled Success))"
  by (auto simp: sendPromise_def then_p_def catch_p_def sendTestResult_fst Let_def
      split: option.splits sum.splits)

lemma settlePending_promise:
  "promise (fst (settlePending st p)) =
     (case promise p of
        Waiting qa atts net \<Rightarrow> Done (fst (sendPromise st net qa atts))
      | Done r \<Rightarrow> Done r)"
  by (simp add: settlePending_def Let_def split: Promise.splits)

lemma sendTestResult_cong:
  assumes "testRunId a = testRunId b" "options a = options b"
  shows "sendTestResult a net qa atts = sendTestResult b net qa atts"
  unfolding sendTestResult_def assms by (rule refl)

lemma sendPromise_cong:
  assumes "testRunId a = testRunId b" "testRunCreationError a = testRunCreationError b"
    "options a = options b"
  shows "sendPromise a net qa atts = sendPromise b net qa atts"
  unfolding sendPromise_def assms sendTestResult_cong[OF assms(1) assms(3)] by (rule refl)

lemma updateCounters_frame:
  "testRunId (updateCounters result st) = testRunId st"
  "options (updateCounters result st) = options st"
  "tests (updateCounters result st) = tests st"
  "out (updateCounters result st) = out st"
  "ReporterBase.more (updateCounters result st) = ReporterBase.more st"
  by (cases "tr_status result"; simp add: updateCounters_def)+

lemma updateCounters_Reporter:
  "testRunCreationError (updateCounters result st) = testRunCreationError st"
  "testRunReady (updateCounters result st) = testRunReady st"
  "flushPromises (updateCounters result st) = flushPromises st"
  "uploadFailures (updateCounters result st) = uploadFailures st"
  by (cases "tr_status result"; simp add: updateCounters_def)+

lemma onTestEnd_flushPromises:
  "flushPromises (onTestEnd st test result net) =
     (if tests st (getTestId test) \<noteq> None \<and> tr_retry result = tc_retries test
      then flushPromises st @
        [if testRunReady st
         then \<lparr>promise = Done (fst (sendPromise st net (convertTestResult test result)
                                  (filteredAttachments (options st) result))),
               testTitle = tc_title test\<rparr>
         else \<lparr>promise = Waiting (convertTestResult test result)
                  (filteredAttachments (options st) result) net,
               testTitle = tc_title test\<rparr>]
      else flushPromises st)"
proof (cases "tests st (getTestId test)")
  case None
  then show ?thesis by (simp add: onTestEnd_def)
next
  case (Some testData)
  let ?st1 = "st\<lparr>tests := (tests st)(getTestId test \<mapsto> (fst testData, result))\<rparr>"
  let ?st2 = "updateCounters result ?st1"
  have "sendPromise ?st2 net (convertTestResult test result) (filteredAttachments (options st) result)
      = sendPromise st net (convertTestResult test result) (filteredAttachments (options st) result)"
    by (rule sendPromise_cong) (simp_all add: updateCounters_frame updateCounters_Reporter)
  with Some show ?thesis
    by (simp add: onTestEnd_def settlePending_def Let_def updateCounters_frame
        updateCounters_Reporter)
qed

lemma onTestEnd_frame:
  "testRunId (onTestEnd st test result net) = testRunId st"
  "options (onTestEnd st test result net) = options st"
  "testRunCreationError (onTestEnd st test result net) = testRunCreationError st"
  "testRunReady (onTestEnd st test result net) = testRunReady st"
  "uploadFailures (onTestEnd st test result net) = uploadFailures st"
  by (simp_all add: onTestEnd_def settlePending_def Let_def updateCounters_frame
        updateCounters_Reporter split: option.splits)

lemma uploadCalls_append: "uploadCalls (xs @ ys) = uploadCalls xs @ uploadCalls ys"
  by (simp add: uploadCalls_def)

lemma uploadCalls_log: "uploadCalls (log opts l) = concat (map upload_of (log opts l))"
  by (simp add: uploadCalls_def)

lemma upload_of_logs:
  "uploadCalls (concat (map (\<lambda>err. log opts (LogResultError (f err))) errs)) = []"
  by (induction errs) (simp_all add: uploadCalls_def log_def)

lemma uploadCalls_uploadAttachments:
  "uploadCalls (snd (uploadAttachments opts upload rid atts)) = map (\<lambda>a. (rid, a)) atts"
proof -
  have a: "uploadCalls (map (CallUploadAttachment rid) xs) = map (\<lambda>a. (rid, a)) xs" for xs
    by (induction xs) (simp_all add: uploadCalls_def)
  have b: "uploadCalls (concat (map (\<lambda>(i, attachment).
               case upload i of
                 Inr _ \<Rightarrow> log opts (LogUploaded (att_name attachment) (length (att_data attachment)))
               | Inl error \<Rightarrow> log opts (LogFailedToUpload (att_name attachment) error))
              (enumerate n xs))) = []" for n xs
    by (induction xs arbitrary: n) (simp_all add: uploadCalls_def log_def split: sum.splits)
  show ?thesis
    by (simp add: uploadAttachments_def uploadCalls_append a b) (simp add: uploadCalls_def)
qed

lemma uploadCalls_simps:
  "uploadCalls [] = []"
  "uploadCalls (x # xs) = upload_of x @ uploadCalls xs"
  by (simp_all add: uploadCalls_def)

lemma sendTestResult_snd:
  "snd (sendTestResult st net qa atts) =
     (case testRunId st of
        None \<Rightarrow> []
      | Some runId \<Rightarrow>
          if \<not> truthy (Some runId) then []
          else CallSubmitTestResults runId [qa] #
            (case t_submit net of
               Inl e \<Rightarrow> []
             | Inr response \<Rightarrow>
                 (case sr_errors response of
                    None \<Rightarrow> []
                  | Some errs \<Rightarrow>
                      concat (map (\<lambda>err. log (options st) (LogResultError (re_error err))) errs)) @
                 (case sr_results response of
                    None \<Rightarrow> []
                  | Some [] \<Rightarrow> []
                  | Some (r # rs) \<Rightarrow>
                      if atts \<noteq> []
                      then snd (uploadAttachments (options st) (t_upload net) (ri_testResultId r) atts)
                      else [])))"
  by (simp add: sendTestResult_def then_p_def Let_def
      split: option.splits sum.splits list.splits)

lemma sendTestResult_uploadCalls:
  "uploadCalls (snd (sendTestResult st net qa atts)) =
     (if truthy (testRunId st)
      then (case t_submit net of
              Inl e \<Rightarrow> []
            | Inr response \<Rightarrow>
                (case sr_results response of
                   None \<Rightarrow> []
                 | Some [] \<Rightarrow> []
                 | Some (r # rs) \<Rightarrow> map (\<lambda>a. (ri_testResultId r, a)) atts))
      else [])"
  by (simp add: sendTestResult_snd uploadCalls_simps uploadCalls_append upload_of_logs
        uploadCalls_uploadAttachments
      split: option.splits sum.splits list.splits)

lemma sendTestResult_first_call:
  "testRunId st = Some runId \<Longrightarrow> runId \<noteq> [] \<Longrightarrow>
   take 1 (snd (sendTestResult st net qa atts)) = [CallSubmitTestResults runId [qa]]"
  by (simp add: sendTestResult_snd)

lemma failed_upload_logged:
  assumes "i < length atts" "upload i = Inl e" "opt_verbose opts"
  shows "LogFailedToUpload (att_name (atts ! i)) e \<in> set (snd (uploadAttachments opts upload rid atts))"
proof -
  have "(i, atts ! i) \<in> set (enumerate 0 atts)"
    using assms(1) by (simp add: in_set_enumerate_eq)
  with assms show ?thesis
    by (force simp: uploadAttachments_def log_def split: sum.splits)
qed

lemma failuresOf_append: "failuresOf (xs @ ys) = failuresOf xs @ failuresOf ys"
  by (induction xs) (simp_all split: Promise.splits settled.splits UploadOutcome.splits)

lemma collectFailures_failuresOf:
  "fulfilments ps = Some rs \<Longrightarrow> collectFailures ps rs = failuresOf ps"
proof (induction ps arbitrary: rs)
  case Nil
  then show ?case by simp
next
  case (Cons p ps)
  then show ?case
    by (auto split: Promise.splits settled.splits option.splits UploadOutcome.splits)
qed

lemma sendTestResults_collects:
  assumes "sendTestResults st = Some (Inr st')" "truthy (testRunId st)"
  shows "uploadFailures st' = uploadFailures st @ failuresOf (flushPromises st)"
    and "flushPromises st' = []"
  using assms
  by (auto simp: sendTestResults_def promiseAll_def Let_def collectFailures_failuresOf
      split: if_splits option.splits)

lemma readyReporter_fields:
  "testRunId readyReporter = Some ''run-1''" "testRunReady readyReporter"
  "opt_verbose (options readyReporter)" "tests readyReporter (getTestId (exampleTest ''login'')) \<noteq> None"
  "totalTests readyReporter = 0" "uploadFailures readyReporter = []" "flushPromises readyReporter = []"
  by (simp_all add: readyReporter_def hooks_simps)

subsection \<open>Attachment failures\<close>

text \<open>
  C6. When the submission of the record succeeds, \<^verbatim>\<open>sendTestResult\<close> fulfils and the
  tracked promise fulfils with success whatever the attachment uploads do: a failed
  upload is only logged. The submission is the first request; attachments are uploaded
  exactly when the response lists a result identifier, and never when the submission
  throws. The record adds no failure record, so the total reported at the drain counts
  it (and the first streaming revision pushes no failure for it either).
\<close>

theorem attachment_failure_keeps_success:
  assumes "testRunId st = Some runId" "runId \<noteq> []" "t_submit net = Inr response"
  shows "fst (sendTestResult st net qaResult attachments) = Fulfilled () \<and>
     fst (sendPromise st net qaResult attachments) = Fulfilled Success \<and>
     take 1 (snd (sendTestResult st net qaResult attachments)) =
       [CallSubmitTestResults runId [qaResult]] \<and>
     uploadCalls (snd (sendTestResult st net qaResult attachments)) =
       (case sr_results response of
          None \<Rightarrow> []
        | Some [] \<Rightarrow> []
        | Some (r # rs) \<Rightarrow> map (\<lambda>a. (ri_testResultId r, a)) attachments) \<and>
     (case t_submit net' of
        Inl e \<Rightarrow> uploadCalls (snd (sendTestResult st net' qaResult attachments)) = []
      | Inr response' \<Rightarrow> True) \<and>
     (i < length attachments \<and> t_upload net i = Inl e \<and> opt_verbose (options st) \<and>
      sr_results response = Some (r # rs)
        \<longrightarrow> LogFailedToUpload (att_name (attachments ! i)) e
              \<in> set (snd (sendTestResult st net qaResult attachments))) \<and>
     (testRunReady st
        \<longrightarrow> failuresOf (flushPromises (onTestEnd st test result net)) =
              failuresOf (flushPromises st)) \<and>
     (testRunReady st \<and> tests st (getTestId test) \<noteq> None \<and> tr_retry result = tc_retries test \<and>
      sendTestResults (onTestEnd st test result net) = Some (Inr st')
        \<longrightarrow> sm_total (calculateUploadedCounts st' duration) =
              totalTests st + 1
                - int (length (uploadFailures st) + length (failuresOf (flushPromises st)))) \<and>
     uploadFailures1 (onTestEnd1 st1 test result net) = uploadFailures1 st1"
proof -
  have t: "truthy (testRunId st)" using assms by simp
  have a: "fst (sendTestResult st net qaResult attachments) = Fulfilled ()"
    using assms t by (simp add: sendTestResult_fst)
  have b: "fst (sendPromise st net qa atts) = Fulfilled Success" for qa atts
    using assms t by (simp add: sendPromise_outcome)
  have c: "take 1 (snd (sendTestResult st net qaResult attachments)) =
       [CallSubmitTestResults runId [qaResult]]"
    using assms(1,2) by (rule sendTestResult_first_call)
  have d: "uploadCalls (snd (sendTestResult st net qaResult attachments)) =
       (case sr_results response of
          None \<Rightarrow> []
        | Some [] \<Rightarrow> []
        | Some (r # rs) \<Rightarrow> map (\<lambda>a. (ri_testResultId r, a)) attachments)"
    using assms t by (simp add: sendTestResult_uploadCalls)
  have e: "(case t_submit net' of
        Inl e \<Rightarrow> uploadCalls (snd (sendTestResult st net' qaResult attachments)) = []
      | Inr response' \<Rightarrow> True)"
    by (simp add: sendTestResult_uploadCalls split: sum.splits)
  have f: "LogFailedToUpload (att_name (attachments ! i)) e
              \<in> set (snd (sendTestResult st net qaResult attachments))"
    if "i < length attachments" "t_upload net i = Inl e" "opt_verbose (options st)"
       "sr_results response = Some (r # rs)"
  proof -
    from that(1) have ne: "attachments \<noteq> []" by auto
    from failed_upload_logged[of i attachments "t_upload net" e "options st" "ri_testResultId r"]
      that(1,2,3)
    show ?thesis using assms that(4) ne
      by (simp add: sendTestResult_snd)
  qed
  have g: "failuresOf (flushPromises (onTestEnd st test result net)) = failuresOf (flushPromises st)"
    if "testRunReady st"
    using that b by (simp add: onTestEnd_flushPromises failuresOf_append)
  have h: "sm_total (calculateUploadedCounts st' duration) =
              totalTests st + 1
                - int (length (uploadFailures st) + length (failuresOf (flushPromises st)))"
    if r: "testRunReady st" "tests st (getTestId test) \<noteq> None" "tr_retry result = tc_retries test"
      "sendTestResults (onTestEnd st test result net) = Some (Inr st')"
  proof -
    let ?s = "onTestEnd st test result net"
    have tt: "truthy (testRunId ?s)" using t by (simp add: onTestEnd_frame)
    from sendTestResults_collects(1)[OF r(4) tt]
    have "uploadFailures st' = uploadFailures st @ failuresOf (flushPromises st)"
      using g[OF r(1)] by (simp add: onTestEnd_frame)
    moreover have "totalTests st' = totalTests ?s"
      using sendTestResults_frame(1)[OF r(4)] .
    moreover have "totalTests ?s = totalTests st + 1"
    proof -
      obtain t' p f k where "counted (tr_status result) (counters st) = (t', p, f, k)"
          and "t' = totalTests st + 1"
        by (cases "tr_status result") (auto simp: counters_def)
      with counters_onTestEnd[of st test result net] r(2,3) show ?thesis
        by (simp add: counters_def)
    qed
    ultimately show ?thesis by (simp add: calculateUploadedCounts_def)
  qed
  have k: "uploadFailures1 (onTestEnd1 st1 test result net) = uploadFailures1 st1"
  proof -
    have "fst (sendTestResult s net qa atts) \<noteq> Rejected x" for s :: Reporter1 and qa atts x
      using assms(3) by (simp add: sendTestResult_fst)
    then show ?thesis
      by (cases "tr_status result")
         (auto simp: onTestEnd1_def updateCounters_def Let_def
               split: option.splits settled.splits sum.splits)
  qed
  from a b c d e f g h k show ?thesis by simp
qed

theorem attachment_failure_keeps_success_witness:
  "fst (sendPromise readyReporter failingUploads
          (convertTestResult (exampleTest ''login'') shotResult) [shot]) = Fulfilled Success \<and>
   uploadCalls (snd (sendTestResult readyReporter failingUploads
          (convertTestResult (exampleTest ''login'') shotResult) [shot])) = [(''r1'', shot)] \<and>
   LogFailedToUpload ''shot.png'' (JsError ''disk full'')
     \<in> set (snd (sendTestResult readyReporter failingUploads
          (convertTestResult (exampleTest ''login'') shotResult) [shot])) \<and>
   (\<exists>st'. sendTestResults (onTestEnd readyReporter (exampleTest ''login'') shotResult failingUploads)
            = Some (Inr st') \<and>
          sm_total (calculateUploadedCounts st' 10) = 1)"
proof -
  let ?st = "onTestEnd readyReporter (exampleTest ''login'') shotResult failingUploads"
  have tr: "truthy (testRunId ?st)" by (simp add: onTestEnd_frame readyReporter_fields)
  have "\<exists>st'. sendTestResults ?st = Some (Inr st')"
    using tr
    by (simp add: sendTestResults_def promiseAll_def onTestEnd_flushPromises readyReporter_fields
        sendPromise_outcome shotResult_def exampleResult_def exampleTest_def failingUploads_def
        Let_def)
  then obtain st' where d: "sendTestResults ?st = Some (Inr st')" by blast
  have h: "testRunId readyReporter = Some ''run-1''" "''run-1'' \<noteq> []"
    "t_submit failingUploads = Inr \<lparr> sr_processedCount = 1,
        sr_results = Some [\<lparr>ri_testResultId = ''r1'', ri_title = ''login''\<rparr>], sr_errors = None \<rparr>"
    by (simp_all add: readyReporter_fields failingUploads_def)
  from attachment_failure_keeps_success[OF h,
      of "convertTestResult (exampleTest ''login'') shotResult" "[shot]" failingUploads 0
         "JsError ''disk full''" "\<lparr>ri_testResultId = ''r1'', ri_title = ''login''\<rparr>" "[]"
         "exampleTest ''login''" shotResult st' 10]
    d readyReporter_fields
  show ?thesis
    by (simp add: failingUploads_def shot_def shotResult_def exampleResult_def exampleTest_def)
qed

subsection \<open>Requests of the hooks\<close>

lemma completions_simps:
  "completions [] = []"
  "completions (x # xs) = completion_of x @ completions xs"
  "completions (xs @ ys) = completions xs @ completions ys"
  by (simp_all add: completions_def)

lemma completions_log: "completions (log opts l) = completion_of l \<or> completions (log opts l) = []"
  by (simp add: log_def completions_def)

lemma completions_logs:
  "completions (concat (map (\<lambda>f. log opts (LogFailedResult (a f) (b f))) fs)) = []"
  by (induction fs) (simp_all add: completions_def log_def)

lemma completions_reportFailures: "completions (reportFailures st) = []"
proof -
  have w: "completions (concat (map (\<lambda>failure. [WarnFailureTitle (uf_testTitle failure),
            WarnFailureError (uf_error failure)]) fs)) = []" for fs
    by (induction fs) (simp_all add: completions_def)
  show ?thesis
    by (simp add: reportFailures_def Let_def completions_simps w split: option.splits)
qed

lemma completions_handleError:
  "completions (out (fst (handleError st m e))) = completions (out st)"
  by (simp add: handleError_def Let_def completions_simps split: sum.splits)

lemma sendTestResults_completions:
  "sendTestResults st = Some (Inr st1) \<Longrightarrow> completions (out st1) = completions (out st)"
  by (auto simp: sendTestResults_def Let_def completions_simps completions_logs
      split: if_splits option.splits sum.splits)

lemma sendTestResults_Inl:
  "sendTestResults st = Some (Inl e) \<Longrightarrow> rejection (flushPromises st) = Some e"
  by (auto simp: sendTestResults_def promiseAll_def Let_def split: if_splits option.splits)

lemma sendTestResults_Inr:
  "sendTestResults st = Some (Inr st1) \<Longrightarrow> truthy (testRunId st)
     \<Longrightarrow> rejection (flushPromises st) = None"
  by (auto simp: sendTestResults_def promiseAll_def Let_def split: if_splits option.splits)

lemma calculateUploadedCounts_cong:
  assumes "(a::Reporter)\<lparr>out := []\<rparr> = b\<lparr>out := []\<rparr>"
  shows "calculateUploadedCounts a d = calculateUploadedCounts b d"
  unfolding calculateUploadedCounts_def
    out_irrelevant(1)[OF assms] out_irrelevant(2)[OF assms] out_irrelevant(3)[OF assms]
    out_irrelevant(4)[OF assms] out_irrelevant(11)[OF assms]
  by (rule refl)

lemma onEnd_completions:
  assumes "onEnd st duration completion = Some r"
  shows "completions (out (fst r)) = completions (out st) @
           (case testRunId st of
              None \<Rightarrow> []
            | Some runId \<Rightarrow>
                if truthy (Some runId) \<and> rejection (flushPromises st) = None
                then [(runId, calculateUploadedCounts (fst r) duration)] else [])"
proof (cases "sendTestResults st")
  case None
  with assms show ?thesis by (simp add: onEnd_def)
next
  case (Some a)
  show ?thesis
  proof (cases a)
    case (Inl e)
    with Some assms have r: "r = handleError st ''Failed to send test results'' e"
      by (simp add: onEnd_def)
    from Some Inl have "rejection (flushPromises st) = Some e"
      by (simp add: sendTestResults_Inl)
    with r show ?thesis by (simp add: completions_handleError split: option.splits)
  next
    case (Inr st1)
    with Some have s: "sendTestResults st = Some (Inr st1)" by simp
    note eq = onEnd_Inr[OF s assms]
    note cc = calculateUploadedCounts_cong[OF eq, of duration]
    have id: "testRunId st1 = testRunId st" using sendTestResults_frame[OF s] by simp
    have co: "completions (out st1) = completions (out st)" by (rule sendTestResults_completions[OF s])
    show ?thesis
    proof (cases "testRunId st")
      case None
      with s assms id co show ?thesis
        by (auto simp: onEnd_def Let_def completions_simps completions_reportFailures)
    next
      case (Some runId)
      show ?thesis
      proof (cases "truthy (Some runId)")
        case False
        with s assms id co Some show ?thesis
          by (auto simp: onEnd_def Let_def completions_simps completions_reportFailures)
      next
        case True
        with Some s have nr: "rejection (flushPromises st) = None"
          using sendTestResults_Inr[OF s] by simp
        let ?st2 = "st1\<lparr>out := out st1 @ reportFailures st1\<rparr>"
        have c2: "calculateUploadedCounts ?st2 duration = calculateUploadedCounts (fst r) duration"
          using cc by (simp add: calculateUploadedCounts_def)
        have "completions (out (fst r)) = completions (out st) @
                [(runId, calculateUploadedCounts ?st2 duration)]"
        proof (cases completion)
          case (Inl e)
          with s assms id Some True have
            "r = handleError (?st2\<lparr>out := out ?st2 @
                    [CallCompleteTestRun runId (calculateUploadedCounts ?st2 duration)]\<rparr>)
                  ''Failed to send test results'' e"
            by (simp add: onEnd_def Let_def)
          then show ?thesis
            by (simp add: completions_handleError completions_simps completions_reportFailures co)
        next
          case (Inr u)
          with s assms id Some True show ?thesis
            by (auto simp: onEnd_def Let_def completions_simps completions_reportFailures co)
        qed
        with Some True nr c2 show ?thesis by simp
      qed
    qed
  qed
qed

lemma completions_failure_lines:
  "completions (concat (map (\<lambda>failure. [WarnFailureTitle (a failure), WarnFailureError (b failure)]) fs)) = []"
  by (induction fs) (simp_all add: completions_def)

lemma onEnd1_completions:
  "completions (out (fst (onEnd1 st duration completion))) = completions (out st) @
     (case testRunId st of
        None \<Rightarrow> []
      | Some runId \<Rightarrow> if truthy (Some runId) then [(runId, actualUploaded st duration)] else [])"
proof -
  have a: "actualUploaded (st\<lparr>out := x\<rparr>) duration = actualUploaded st duration" for x
    by (simp add: actualUploaded_def)
  show ?thesis
    by (cases completion)
       (simp_all add: onEnd1_def Let_def completions_simps completions_failure_lines
          completions_handleError a split: option.splits)
qed

lemma submitCalls_simps:
  "submitCalls [] = []"
  "submitCalls (x # xs) = submit_of x @ submitCalls xs"
  "submitCalls (xs @ ys) = submitCalls xs @ submitCalls ys"
  by (simp_all add: submitCalls_def)

lemma calls_of_logs:
  "submitCalls (concat (map (\<lambda>err. log opts (LogResultError (f err))) errs)) = []"
  "completions (concat (map (\<lambda>err. log opts (LogResultError (f err))) errs)) = []"
  by (induction errs) (simp_all add: submitCalls_def completions_def log_def)

lemma calls_of_log:
  "submitCalls (log opts (LogBatchFailed n)) = []"
  "completions (log opts (LogBatchFailed n)) = []"
  by (simp_all add: submitCalls_def completions_def log_def)

lemma calls_of_uploadBatchAttachments:
  "submitCalls (uploadBatchAttachments batch ids) = []"
  "completions (uploadBatchAttachments batch ids) = []"
proof -
  have a: "submitCalls (map (CallUploadAttachment i) xs) = []"
          "completions (map (CallUploadAttachment i) xs) = []" for i xs
    by (induction xs) (simp_all add: submitCalls_def completions_def)
  have "submitCalls (concat (map (\<lambda>item.
        case titleToResultId ids (qa_title (qi_result item)) of
          None \<Rightarrow> []
        | Some testResultId \<Rightarrow>
            if truthy (Some testResultId) \<and> qi_attachments item \<noteq> []
            then map (CallUploadAttachment testResultId) (qi_attachments item)
            else []) b)) = []" for b
    by (induction b) (simp_all add: submitCalls_simps a split: option.splits)
  moreover have "completions (concat (map (\<lambda>item.
        case titleToResultId ids (qa_title (qi_result item)) of
          None \<Rightarrow> []
        | Some testResultId \<Rightarrow>
            if truthy (Some testResultId) \<and> qi_attachments item \<noteq> []
            then map (CallUploadAttachment testResultId) (qi_attachments item)
            else []) b)) = []" for b
    by (induction b) (simp_all add: completions_simps a split: option.splits)
  ultimately show "submitCalls (uploadBatchAttachments batch ids) = []"
    "completions (uploadBatchAttachments batch ids) = []"
    by (simp_all add: uploadBatchAttachments_def)
qed

lemma flushSettled_Inr:
  "fst (flushSettled st batch (Inr response)) =
     st\<lparr>out := out st @
            (case sr_errors response of
               None \<Rightarrow> []
             | Some errs \<Rightarrow> concat (map (\<lambda>err. log (options st) (LogResultError (re_error err))) errs)) @
            (case sr_results response of
               None \<Rightarrow> []
             | Some [] \<Rightarrow> []
             | Some (r # rs) \<Rightarrow> uploadBatchAttachments batch (r # rs)),
         resultQueue :=
            filter (\<lambda>item. qa_title (qi_result item)
                      \<notin> set (map ri_title (case sr_results response of None \<Rightarrow> [] | Some rs \<Rightarrow> rs)))
              (resultQueue st)\<rparr>"
  by (simp add: flushSettled_def Let_def split: option.splits list.splits)

lemma flushSettled_Inl:
  "fst (flushSettled st batch (Inl e)) =
     st\<lparr>out := out st @
           (case message_of e of
              Inl t \<Rightarrow> []
            | Inr m \<Rightarrow>
                if opt_silent (options st)
                then ConsoleError (''Failed to send batch: '' @ m) #
                     log (options st) (LogBatchFailed (int (length (resultQueue st))))
                else [])\<rparr>"
  by (simp add: flushSettled_def handleError_def Let_def split: sum.splits)

lemma flushSettled_frame:
  "totalTests (fst (flushSettled st batch outcome)) = totalTests st"
  "passedTests (fst (flushSettled st batch outcome)) = passedTests st"
  "failedTests (fst (flushSettled st batch outcome)) = failedTests st"
  "skippedTests (fst (flushSettled st batch outcome)) = skippedTests st"
  "testRunId (fst (flushSettled st batch outcome)) = testRunId st"
  "options (fst (flushSettled st batch outcome)) = options st"
  "flushPromises_b (fst (flushSettled st batch outcome)) = flushPromises_b st"
  "submitCalls (out (fst (flushSettled st batch outcome))) = submitCalls (out st)"
  "completions (out (fst (flushSettled st batch outcome))) = completions (out st)"
  by (cases outcome;
      simp add: flushSettled_Inr flushSettled_Inl submitCalls_simps completions_simps
        calls_of_logs calls_of_log calls_of_uploadBatchAttachments
        split: option.splits list.splits sum.splits)+

lemma settleAll_frame:
  "totalTests (settleAll client i fs st) = totalTests st"
  "passedTests (settleAll client i fs st) = passedTests st"
  "failedTests (settleAll client i fs st) = failedTests st"
  "skippedTests (settleAll client i fs st) = skippedTests st"
  "testRunId (settleAll client i fs st) = testRunId st"
  "options (settleAll client i fs st) = options st"
  "submitCalls (out (settleAll client i fs st)) = submitCalls (out st)"
  "completions (out (settleAll client i fs st)) = completions (out st)"
  by (induction client i fs st rule: settleAll.induct; simp add: flushSettled_frame)+

lemma flushResults_frame:
  "testRunId (flushResults st) = testRunId st"
  "options (flushResults st) = options st"
  "resultQueue (flushResults st) = resultQueue st"
  "completions (out (flushResults st)) = completions (out st)"
  "submitCalls (out (flushResults st)) = submitCalls (out st) @
     (case testRunId st of
        None \<Rightarrow> []
      | Some runId \<Rightarrow>
          if truthy (Some runId) \<and> resultQueue st \<noteq> []
          then [(runId, map qi_result (resultQueue st))] else [])"
  by (simp_all add: flushResults_def Let_def submitCalls_simps completions_simps
      split: option.splits)

lemma sendTestResults_b_frame:
  "totalTests (sendTestResults_b client st) = totalTests st"
  "passedTests (sendTestResults_b client st) = passedTests st"
  "failedTests (sendTestResults_b client st) = failedTests st"
  "skippedTests (sendTestResults_b client st) = skippedTests st"
  "testRunId (sendTestResults_b client st) = testRunId st"
  "options (sendTestResults_b client st) = options st"
  "completions (out (sendTestResults_b client st)) = completions (out st)"
  by (simp_all add: sendTestResults_b_def Let_def settleAll_frame flushResults_frame
        flushResults_counters)

lemma sendTestResults_b_calls:
  "submitCalls (out (sendTestResults_b client st)) = submitCalls (out st) @
     (case testRunId st of
        None \<Rightarrow> []
      | Some runId \<Rightarrow>
          if truthy (Some runId) \<and> resultQueue st \<noteq> []
          then [(runId, map qi_result (resultQueue st))] else [])"
  by (simp add: sendTestResults_b_def Let_def settleAll_frame flushResults_frame
      split: option.splits)

lemma onEnd_b_completions:
  "completions (out (fst (onEnd_b client st duration completion))) = completions (out st) @
     (case testRunId st of
        None \<Rightarrow> []
      | Some runId \<Rightarrow>
          if truthy (Some runId)
          then [(runId, \<lparr> sm_total = totalTests st, sm_passed = passedTests st,
                          sm_failed = failedTests st, sm_skipped = skippedTests st,
                          sm_duration = duration \<rparr>)]
          else [])"
  by (cases completion)
     (simp_all add: onEnd_b_def Let_def sendTestResults_b_frame completions_simps
        completions_handleError split: option.splits)

lemma settleFlush_calls:
  "submitCalls (out (settleFlush st i outcome)) = submitCalls (out st)"
  by (simp add: settleFlush_def flushSettled_frame split: Flush.splits)

lemma onTestEnd_b_calls:
  "submitCalls (out (onTestEnd_b st test result)) = submitCalls (out st) @
     (case testRunId st of
        None \<Rightarrow> []
      | Some runId \<Rightarrow>
          if tests st (getTestId test) \<noteq> None \<and> tr_retry result = tc_retries test \<and>
             truthy (Some runId) \<and>
             opt_batchSize (options st) \<le> int (length (resultQueue st)) + 1
          then [(runId, map qi_result (resultQueue st) @ [convertTestResult test result])]
          else [])"
  by (cases "tr_status result")
     (auto simp: onTestEnd_b_def Let_def updateCounters_def flushResults_frame
           split: option.splits)

lemma lossy_eval:
  "onEnd lossyReporter 10 (Inr ()) \<noteq> None"
  "map_option (\<lambda>r. (completions (out (fst r)), totalTests (fst r), uploadFailures (fst r)))
     (onEnd lossyReporter 10 (Inr ())) =
   Some ([(''run-1'', \<lparr>sm_total = 1, sm_passed = 2, sm_failed = 0, sm_skipped = 0, sm_duration = 10\<rparr>)],
         2, [\<lparr>uf_testTitle = ''login'', uf_error = ''503 Service Unavailable''\<rparr>])"
  by (simp_all add: lossyReporter_def throwingTransport_def hooks_simps completions_simps)

lemma onBegin_ready: "testRunReady (fst (onBegin st created))"
  by (simp add: onBegin_def Let_def resolveReady_ready)

lemma step_gate:
  assumes "step e st = Some st'" "\<not> isOnBegin e"
  shows "testRunId st' = testRunId st" "testRunCreationError st' = testRunCreationError st"
    "testRunReady st' = testRunReady st" "options st' = options st"
proof -
  have "testRunId st' = testRunId st \<and> testRunCreationError st' = testRunCreationError st \<and>
    testRunReady st' = testRunReady st \<and> options st' = options st"
  proof (cases e)
    case (OnBegin created)
    with assms show ?thesis by simp
  next
    case (OnTestBegin test result)
    with assms show ?thesis by (auto simp: onTestBegin_def)
  next
    case (OnTestEnd test result net)
    with assms show ?thesis by (auto simp: onTestEnd_frame)
  next
    case (OnEnd duration completion)
    with assms obtain r where "onEnd st duration completion = Some r" "st' = fst r"
      by (auto split: option.splits)
    with onEnd_frame[of st duration completion r] show ?thesis by simp
  qed
  then show "testRunId st' = testRunId st" "testRunCreationError st' = testRunCreationError st"
    "testRunReady st' = testRunReady st" "options st' = options st" by simp_all
qed

lemma run_gate:
  assumes "run es st = Some st'" "list_all (\<lambda>e. \<not> isOnBegin e) es"
  shows "testRunId st' = testRunId st \<and> testRunCreationError st' = testRunCreationError st \<and>
    testRunReady st' = testRunReady st \<and> options st' = options st"
  using assms
proof (induction es arbitrary: st)
  case Nil
  then show ?case by simp
next
  case (Cons e es)
  then obtain st1 where s: "step e st = Some st1" "run es st1 = Some st'"
    by (auto split: option.splits)
  from Cons.prems(2) have ne: "\<not> isOnBegin e" "list_all (\<lambda>e. \<not> isOnBegin e) es" by simp_all
  from Cons.IH[OF s(2) ne(2)] step_gate[OF s(1) ne(1)] show ?case by simp
qed

lemma onBegin_waiters:
  assumes "\<not> testRunReady st"
  shows "map promise (flushPromises (fst (onBegin st created))) =
     map (\<lambda>p. case promise p of
                 Waiting qa atts net \<Rightarrow> Done (fst (sendPromise (fst (onBegin st created)) net qa atts))
               | Done r \<Rightarrow> Done r) (flushPromises st)"
proof -
  define st0 where "st0 = fst (if opt_createTestRun (options st) \<and> \<not> truthy (opt_testRunId (options st))
         then (case created of
                 Inr response_id \<Rightarrow> (st\<lparr>testRunId := Some response_id\<rparr>, None)
               | Inl error \<Rightarrow>
                   (case message_of error of
                      Inl t \<Rightarrow> (st, Some t)
                    | Inr m \<Rightarrow>
                        handleError (st\<lparr>testRunCreationError := Some m\<rparr>)
                          ''Failed to create test run'' error))
         else (st\<lparr>testRunId := opt_testRunId (options st)\<rparr>, None))"
  have ob: "fst (onBegin st created) = resolveReady st0"
    by (simp add: onBegin_def Let_def st0_def)
  have more: "Reporter.more st0 = Reporter.more st \<and> flushPromises st0 = flushPromises st \<and>
              testRunReady st0 = testRunReady st"
    by (simp add: st0_def handleError_def Let_def split: sum.splits)
  have c: "sendPromise (resolveReady st0) net qa atts = sendPromise st0 net qa atts" for net qa atts
    by (rule sendPromise_cong) (simp_all add: resolveReady_frame)
  have "map promise (flushPromises (resolveReady st0)) =
        map (\<lambda>p. promise (fst (settlePending st0 p))) (flushPromises st0)"
    using assms more by (simp add: resolveReady_def Let_def comp_def)
  also have "\<dots> = map (\<lambda>p. case promise p of
                 Waiting qa atts net \<Rightarrow> Done (fst (sendPromise (resolveReady st0) net qa atts))
               | Done r \<Rightarrow> Done r) (flushPromises st0)"
    unfolding settlePending_promise c by (rule refl)
  finally have f: "map promise (flushPromises (resolveReady st0)) =
        map (\<lambda>p. case promise p of
                 Waiting qa atts net \<Rightarrow> Done (fst (sendPromise (resolveReady st0) net qa atts))
               | Done r \<Rightarrow> Done r) (flushPromises st0)" .
  have fp: "flushPromises st0 = flushPromises st" using more by simp
  show ?thesis unfolding ob f fp by (rule refl)
qed

lemma onBegin_again:
  assumes "testRunReady st"
  shows "flushPromises (fst (onBegin st created)) = flushPromises st"
proof -
  have "testRunReady st0 \<Longrightarrow> flushPromises (resolveReady st0) = flushPromises st0" for st0
    by (simp add: resolveReady_def)
  moreover have "testRunReady (fst (handleError (st\<lparr>testRunCreationError := x\<rparr>) m e))"
    "flushPromises (fst (handleError (st\<lparr>testRunCreationError := x\<rparr>) m e)) = flushPromises st"
    for x m e
    using assms by (simp_all add: handleError_def Let_def split: sum.splits)
  ultimately show ?thesis using assms
    by (simp add: onBegin_def Let_def split: sum.splits)
qed

subsection \<open>Every run returns\<close>

lemma fulfilments_settled:
  "list_all isSettled ps \<Longrightarrow> rejection ps = None \<Longrightarrow> \<exists>rs. fulfilments ps = Some rs"
  by (induction ps) (auto simp: isSettled_def split: Promise.splits settled.splits)

lemma promiseAll_settled: "list_all isSettled ps \<Longrightarrow> promiseAll ps \<noteq> None"
  using fulfilments_settled[of ps]
  by (cases "rejection ps") (auto simp: promiseAll_def)

lemma isSettled_settle_all: "list_all isSettled (map (fst \<circ> settlePending st) ps)"
  by (induction ps) (simp_all add: isSettled_def settlePending_promise split: Promise.splits)

lemma newReporter_settled: "settledWhenReady (newReporter opts)"
  by (simp add: settledWhenReady_def newReporter_def)

lemma resolveReady_settled:
  assumes "testRunReady st \<Longrightarrow> list_all isSettled (flushPromises st)"
  shows "settledWhenReady (resolveReady st)"
proof (cases "testRunReady st")
  case True
  with assms show ?thesis by (simp add: resolveReady_def settledWhenReady_def)
next
  case False
  then show ?thesis
    by (simp add: settledWhenReady_def resolveReady_ready)
       (simp add: resolveReady_def Let_def isSettled_settle_all)
qed

lemma onBegin_settled:
  assumes "settledWhenReady st"
  shows "settledWhenReady (fst (onBegin st created))"
proof -
  define st0 where "st0 = fst (if opt_createTestRun (options st) \<and> \<not> truthy (opt_testRunId (options st))
         then (case created of
                 Inr response_id \<Rightarrow> (st\<lparr>testRunId := Some response_id\<rparr>, None)
               | Inl error \<Rightarrow>
                   (case message_of error of
                      Inl t \<Rightarrow> (st, Some t)
                    | Inr m \<Rightarrow>
                        handleError (st\<lparr>testRunCreationError := Some m\<rparr>)
                          ''Failed to create test run'' error))
         else (st\<lparr>testRunId := opt_testRunId (options st)\<rparr>, None))"
  have ob: "fst (onBegin st created) = resolveReady st0"
    by (simp add: onBegin_def Let_def st0_def)
  have more: "flushPromises st0 = flushPromises st" "testRunReady st0 = testRunReady st"
    by (simp_all add: st0_def handleError_def Let_def split: sum.splits)
  from assms have "testRunReady st0 \<Longrightarrow> list_all isSettled (flushPromises st0)"
    by (simp add: more settledWhenReady_def split: if_splits)
  then show ?thesis unfolding ob by (rule resolveReady_settled)
qed

lemma onTestEnd_settled:
  assumes "settledWhenReady st"
  shows "settledWhenReady (onTestEnd st test result net)"
  using assms
  by (simp add: settledWhenReady_def onTestEnd_frame)
     (auto simp: onTestEnd_flushPromises isSettled_def)

lemma sendTestResults_returns:
  assumes "settledWhenReady st"
  shows "sendTestResults st \<noteq> None"
proof (cases "truthy (testRunId st)")
  case False
  then show ?thesis by (simp add: sendTestResults_def)
next
  case True
  with assms have "list_all isSettled (flushPromises st)"
    by (simp add: settledWhenReady_def split: if_splits)
  from promiseAll_settled[OF this] show ?thesis
    by (auto simp: sendTestResults_def Let_def split: option.splits sum.splits)
qed

lemma onEnd_returns:
  assumes "settledWhenReady st"
  shows "onEnd st duration completion \<noteq> None"
proof -
  from sendTestResults_returns[OF assms] obtain r where r: "sendTestResults st = Some r" by blast
  show ?thesis
  proof (cases r)
    case (Inl e)
    with r show ?thesis by (simp add: onEnd_def)
  next
    case (Inr st1)
    with r show ?thesis using onEnd_defined by blast
  qed
qed

lemma sendTestResults_flushPromises:
  "sendTestResults st = Some (Inr st1) \<Longrightarrow>
     flushPromises st1 = [] \<or> flushPromises st1 = flushPromises st"
  by (auto simp: sendTestResults_def Let_def split: if_splits option.splits sum.splits)

lemma onEnd_settled:
  assumes "settledWhenReady st" "onEnd st duration completion = Some r"
  shows "settledWhenReady (fst r)"
proof -
  from onEnd_shape[OF assms(2)] obtain st1 where
    h: "sendTestResults st = Some (Inr st1) \<or> st1 = st" "(fst r)\<lparr>out := []\<rparr> = st1\<lparr>out := []\<rparr>"
    by blast
  have "settledWhenReady st1"
  proof -
    from h(1) show ?thesis
    proof
      assume s: "sendTestResults st = Some (Inr st1)"
      from sendTestResults_flushPromises[OF s] sendTestResults_frame[OF s] assms(1)
      show ?thesis by (auto simp: settledWhenReady_def split: if_splits)
    next
      assume "st1 = st"
      with assms(1) show ?thesis by simp
    qed
  qed
  with out_irrelevant[OF h(2)] show ?thesis
    by (simp add: settledWhenReady_def)
qed

lemma step_settled:
  assumes "settledWhenReady st"
  shows "\<exists>st'. step e st = Some st' \<and> settledWhenReady st'"
proof (cases e)
  case (OnBegin created)
  with onBegin_settled[OF assms] show ?thesis by simp
next
  case (OnTestBegin test result)
  with assms show ?thesis by (simp add: settledWhenReady_def onTestBegin_def)
next
  case (OnTestEnd test result net)
  with onTestEnd_settled[OF assms] show ?thesis by simp
next
  case (OnEnd duration completion)
  from onEnd_returns[OF assms, of duration completion] obtain r where
    r: "onEnd st duration completion = Some r" by blast
  with OnEnd onEnd_settled[OF assms r] show ?thesis by simp
qed

lemma run_settled:
  "settledWhenReady st \<Longrightarrow> \<exists>st'. run es st = Some st' \<and> settledWhenReady st'"
proof (induction es arbitrary: st)
  case Nil
  then show ?case by simp
next
  case (Cons e es)
  from step_settled[OF Cons.prems, of e] obtain st1 where
    "step e st = Some st1" "settledWhenReady st1" by blast
  with Cons.IH[of st1] show ?case by simp
qed

lemma run_returns: "run es (newReporter opts) \<noteq> None"
  using run_settled[OF newReporter_settled, of es opts] by auto

subsection \<open>The attempted counters\<close>

text \<open>
  C8. In each revision \<^verbatim>\<open>onTestEnd\<close> changes the counters only for a result at its
  final retry whose test was registered by \<^verbatim>\<open>onTestBegin\<close> (otherwise the hook
  returns early or skips the block): then the total and exactly the bucket of the
  status grow by one. So the excess of the total over the three buckets never changes,
  every run of the hooks from a new reporter returns, and after it
  \<open>totalTests = passedTests + failedTests + skippedTests\<close>.
\<close>

theorem counters_consistent:
  "counters (onTestEnd st test result net) =
     (if tests st (getTestId test) \<noteq> None \<and> tr_retry result = tc_retries test
      then counted (tr_status result) (counters st) else counters st) \<and>
   counters (onTestEnd1 st1 test result net) =
     (if tests st1 (getTestId test) \<noteq> None \<and> tr_retry result = tc_retries test
      then counted (tr_status result) (counters st1) else counters st1) \<and>
   counters (onTestEnd_b stb test result) =
     (if tests stb (getTestId test) \<noteq> None \<and> tr_retry result = tc_retries test
      then counted (tr_status result) (counters stb) else counters stb) \<and>
   surplus (onTestEnd st test result net) = surplus st \<and>
   surplus (onTestEnd1 st1 test result net) = surplus st1 \<and>
   surplus (onTestEnd_b stb test result) = surplus stb \<and>
   run es (newReporter opts) \<noteq> None \<and>
   (run es (newReporter opts) = Some st'
      \<longrightarrow> totalTests st' = passedTests st' + failedTests st' + skippedTests st')"
proof -
  have a: "surplus (onTestEnd st test result net) = surplus st"
    by (rule surplus_counters[of _ "tr_status result"])
       (simp add: counters_onTestEnd)
  have b: "surplus (onTestEnd1 st1 test result net) = surplus st1"
    by (rule surplus_counters[of _ "tr_status result"])
       (simp add: counters_onTestEnd1)
  have c: "surplus (onTestEnd_b stb test result) = surplus stb"
    by (rule surplus_counters[of _ "tr_status result"])
       (simp add: counters_onTestEnd_b)
  have d: "totalTests st' = passedTests st' + failedTests st' + skippedTests st'"
    if "run es (newReporter opts) = Some st'"
  proof -
    from run_surplus[OF that] have "surplus st' = 0"
      by (simp add: surplus_def newReporter_def)
    then show ?thesis by (simp add: surplus_def)
  qed
  from a b c d run_returns[of es opts] show ?thesis
    by (simp only: counters_onTestEnd counters_onTestEnd1 counters_onTestEnd_b) simp
qed


theorem counters_consistent_witness:
  "\<exists>st'. run exampleRun (newReporter exampleOptions) = Some st' \<and>
         counters st' = (2, 1, 1, 0) \<and>
         totalTests st' = passedTests st' + failedTests st' + skippedTests st'"
proof -
  have "\<exists>st'. run exampleRun (newReporter exampleOptions) = Some st' \<and>
              counters st' = (2, 1, 1, 0)"
    by (simp add: exampleRun_def hooks_simps counters_def)
  then obtain st' where h: "run exampleRun (newReporter exampleOptions) = Some st'"
    "counters st' = (2, 1, 1, 0)" by blast
  from counters_consistent[where es = exampleRun and opts = exampleOptions and st' = st'] h(1)
  have "totalTests st' = passedTests st' + failedTests st' + skippedTests st'" by blast
  with h show ?thesis by blast
qed

subsection \<open>The upload task and an error that cannot be rendered\<close>

text \<open>
  How the chain settles: it fulfils with \<^verbatim>\<open>{success: true}\<close> or with
  \<^verbatim>\<open>{success: false, error}\<close>, except when the submission rejects with a value
  whose rendering throws; then the last handler throws and the chain is rejected.
\<close>

lemma sendPromise_cases:
  "fst (sendPromise st net qaResult attachments) = Fulfilled Success \<or>
   (\<exists>msg. fst (sendPromise st net qaResult attachments) = Fulfilled (Failure msg)) \<or>
   (\<exists>e t. truthy (testRunId st) \<and> t_submit net = Inl e \<and> message_of e = Inl t \<and>
          fst (sendPromise st net qaResult attachments) = Rejected t)"
  by (auto simp: sendPromise_outcome split: sum.splits)

text \<open>
  C5. The comment on the chain in \<^verbatim>\<open>onTestEnd\<close> says it is converted "to a promise
  that always fulfills (never rejects)", and the comment in \<^verbatim>\<open>sendTestResults\<close> says
  "all will fulfill, none will reject". The last handler of the chain evaluates
  \<^verbatim>\<open>error instanceof Error ? error.message : String(error)\<close>, which throws for a value
  without a string rendering. When \<^verbatim>\<open>submitTestResults\<close> rejects with such a value,
  the tracked promise is rejected with the \<^verbatim>\<open>TypeError\<close>; in the run,
  \<^verbatim>\<open>Promise.all\<close> of the drain rejects, no failure record is made for the test, and
  \<^verbatim>\<open>onEnd\<close> prints the error and never calls \<^verbatim>\<open>completeTestRun\<close>.
\<close>

theorem tracked_promise_rejects:
  "fst (sendPromise readyReporter unrenderableTransport
          (convertTestResult (exampleTest ''login'') shotResult) [shot]) =
     Rejected (JsError ''Cannot convert object to primitive value'') \<and>
   map_option (\<lambda>st'. (map promise (flushPromises st'), uploadFailures st', out st'))
     (run unrenderableRun (newReporter exampleOptions)) =
     Some ([Done (Rejected (JsError ''Cannot convert object to primitive value''))],
           [],
           [CallSubmitTestResults ''run-1''
              [\<lparr>qa_title = ''login'', qa_status = ''passed'', qa_duration = 5, qa_retry = 0\<rparr>],
            ConsoleError
              ''Failed to send test results: Cannot convert object to primitive value''])"
  by (simp add: unrenderableRun_def unrenderableTransport_def readyReporter_fields
        sendPromise_outcome hooks_simps)

subsection \<open>The readiness promise\<close>

text \<open>
  C4. \<^verbatim>\<open>onBegin\<close> always resolves the readiness promise. Resolving it again does
  nothing, and a second \<^verbatim>\<open>onBegin\<close> releases no chain a second time. As long as
  \<^verbatim>\<open>onBegin\<close> is not called again (the test runner calls it once), every later
  hook leaves \<^verbatim>\<open>state.testRunId\<close> and \<^verbatim>\<open>testRunCreationError\<close> as
  \<^verbatim>\<open>onBegin\<close> left them, so every chain that waits on the promise reads the same
  pair: the chains that waited before it was resolved are run in the state
  \<^verbatim>\<open>onBegin\<close> leaves, and a chain attached at any later time gives the result it
  would have given then.
\<close>

theorem readiness_gate_once:
  assumes "list_all (\<lambda>e. \<not> isOnBegin e) es"
    and "run es (fst (onBegin st created)) = Some st'"
  shows "testRunReady (fst (onBegin st created)) \<and> testRunReady st' \<and>
     testRunId st' = testRunId (fst (onBegin st created)) \<and>
     testRunCreationError st' = testRunCreationError (fst (onBegin st created)) \<and>
     resolveReady st' = st' \<and>
     flushPromises (fst (onBegin st' created')) = flushPromises st' \<and>
     sendPromise st' net qaResult attachments =
       sendPromise (fst (onBegin st created)) net qaResult attachments \<and>
     (\<not> testRunReady st \<longrightarrow>
        map promise (flushPromises (fst (onBegin st created))) =
          map (\<lambda>p. case promise p of
                      Waiting qa atts n \<Rightarrow>
                        Done (fst (sendPromise (fst (onBegin st created)) n qa atts))
                    | Done r \<Rightarrow> Done r) (flushPromises st)) \<and>
     (tests st' (getTestId test) \<noteq> None \<and> tr_retry result = tc_retries test \<longrightarrow>
        flushPromises (onTestEnd st' test result net) =
          flushPromises st' @
            [\<lparr>promise = Done (fst (sendPromise (fst (onBegin st created)) net
                                     (convertTestResult test result)
                                     (filteredAttachments (options st') result))),
              testTitle = tc_title test\<rparr>])"
proof -
  let ?s = "fst (onBegin st created)"
  have r: "testRunReady ?s" by (rule onBegin_ready)
  from run_gate[OF assms(2) assms(1)]
  have g: "testRunId st' = testRunId ?s" "testRunCreationError st' = testRunCreationError ?s"
    "testRunReady st' = testRunReady ?s" "options st' = options ?s" by simp_all
  have r': "testRunReady st'" using g(3) r by simp
  have sp: "sendPromise st' n qa atts = sendPromise ?s n qa atts" for n qa atts
    by (rule sendPromise_cong[OF g(1) g(2) g(4)])
  have w: "map promise (flushPromises ?s) =
          map (\<lambda>p. case promise p of
                      Waiting qa atts n \<Rightarrow> Done (fst (sendPromise ?s n qa atts))
                    | Done r \<Rightarrow> Done r) (flushPromises st)" if "\<not> testRunReady st"
    using that by (rule onBegin_waiters)
  have l: "flushPromises (onTestEnd st' test result net) =
          flushPromises st' @
            [\<lparr>promise = Done (fst (sendPromise ?s net (convertTestResult test result)
                                     (filteredAttachments (options st') result))),
              testTitle = tc_title test\<rparr>]"
    if "tests st' (getTestId test) \<noteq> None" "tr_retry result = tc_retries test"
    using that r' by (simp add: onTestEnd_flushPromises sp)
  from r r' g(1) g(2) resolveReady_idem[OF r'] onBegin_again[OF r', of created'] sp w l
  show ?thesis by simp
qed

theorem readiness_gate_once_witness:
  "list_all (\<lambda>e. \<not> isOnBegin e) laterEvents \<and> \<not> testRunReady waitingReporter \<and>
   (\<exists>st'. run laterEvents (fst (onBegin waitingReporter (Inr ''run-1''))) = Some st' \<and>
      testRunReady st' \<and>
      testRunId st' = testRunId (fst (onBegin waitingReporter (Inr ''run-1''))) \<and>
      testRunCreationError st' = testRunCreationError (fst (onBegin waitingReporter (Inr ''run-1''))) \<and>
      tests st' (getTestId (exampleTest ''login'')) \<noteq> None) \<and>
   map promise (flushPromises waitingReporter) \<noteq> [Done (Fulfilled Success)] \<and>
   map promise (flushPromises (fst (onBegin waitingReporter (Inr ''run-1'')))) =
     [Done (Fulfilled Success)]"
proof -
  have a: "list_all (\<lambda>e. \<not> isOnBegin e) laterEvents" by (simp add: laterEvents_def)
  have b: "\<not> testRunReady waitingReporter"
    "map promise (flushPromises waitingReporter) \<noteq> [Done (Fulfilled Success)]"
    by (simp_all add: waitingReporter_def hooks_simps)
  have "\<exists>st'. run laterEvents (fst (onBegin waitingReporter (Inr ''run-1''))) = Some st' \<and>
      tests st' (getTestId (exampleTest ''login'')) \<noteq> None"
    by (simp add: laterEvents_def waitingReporter_def throwingTransport_def hooks_simps)
  then obtain st' where c: "run laterEvents (fst (onBegin waitingReporter (Inr ''run-1''))) = Some st'"
    "tests st' (getTestId (exampleTest ''login'')) \<noteq> None" by blast
  have d: "fst (sendPromise (fst (onBegin waitingReporter (Inr ''run-1''))) (acceptingTransport ''early'')
             qa atts) = Fulfilled Success" for qa atts
    by (simp add: sendPromise_outcome onBegin_def Let_def resolveReady_frame
          waitingReporter_def onTestEnd_frame onTestBegin_def newReporter_def exampleOptions_def
          acceptingTransport_def)
  have e: "map promise (flushPromises waitingReporter) =
      [Waiting (convertTestResult (exampleTest ''early'') (exampleResult Failed)) []
         (acceptingTransport ''early'')]"
    by (simp add: waitingReporter_def onTestEnd_flushPromises onTestBegin_def newReporter_def
          getTestId_def exampleTest_def exampleResult_def filteredAttachments_def)
  from readiness_gate_once[OF a c(1)] b(1) have
    "testRunReady st' \<and>
     testRunId st' = testRunId (fst (onBegin waitingReporter (Inr ''run-1''))) \<and>
     testRunCreationError st' = testRunCreationError (fst (onBegin waitingReporter (Inr ''run-1'')))"
    and f: "map promise (flushPromises (fst (onBegin waitingReporter (Inr ''run-1'')))) =
          map (\<lambda>p. case p of
                      Waiting qa atts n \<Rightarrow>
                        Done (fst (sendPromise (fst (onBegin waitingReporter (Inr ''run-1''))) n qa atts))
                    | Done r \<Rightarrow> Done r) (map promise (flushPromises waitingReporter))"
    by (simp_all add: comp_def)
  moreover from f have "map promise (flushPromises (fst (onBegin waitingReporter (Inr ''run-1'')))) =
     [Done (Fulfilled Success)]"
    unfolding e by (simp add: d)
  ultimately show ?thesis using a b c by blast
qed

subsection \<open>The reported total\<close>

text \<open>
  C2. \<^verbatim>\<open>onEnd\<close> returns in every run, and the one summary it passes to
  \<^verbatim>\<open>completeTestRun\<close> (passed when the run identifier is set) has
  \<open>total = totalTests - uploadFailures.length\<close>, with the upload failures as they are
  after the drain. The same holds for the first streaming revision; the batched
  revision collects no upload failures and reports \<open>totalTests\<close>.
\<close>

theorem uploaded_total:
  "(onEnd st duration completion = Some r \<longrightarrow>
      completions (out (fst r)) = completions (out st) @
        (case testRunId st of
           None \<Rightarrow> []
         | Some runId \<Rightarrow>
             if truthy (Some runId) \<and> rejection (flushPromises st) = None
             then [(runId, calculateUploadedCounts (fst r) duration)] else [])) \<and>
   sm_total (calculateUploadedCounts s duration) = totalTests s - int (length (uploadFailures s)) \<and>
   completions (out (fst (onEnd1 st1 duration completion))) = completions (out st1) @
     (case testRunId st1 of
        None \<Rightarrow> []
      | Some runId \<Rightarrow> if truthy (Some runId) then [(runId, actualUploaded st1 duration)] else []) \<and>
   sm_total (actualUploaded st1 duration) = totalTests st1 - int (length (uploadFailures1 st1)) \<and>
   completions (out (fst (onEnd_b client stb duration completion))) = completions (out stb) @
     (case testRunId stb of
        None \<Rightarrow> []
      | Some runId \<Rightarrow>
          if truthy (Some runId)
          then [(runId, \<lparr> sm_total = totalTests stb, sm_passed = passedTests stb,
                          sm_failed = failedTests stb, sm_skipped = skippedTests stb,
                          sm_duration = duration \<rparr>)]
          else []) \<and>
   run es (newReporter opts) \<noteq> None"
proof -
  have "sm_total (actualUploaded st1 duration) = totalTests st1 - int (length (uploadFailures1 st1))"
    by (simp add: actualUploaded_def split: prod.splits)
  then show ?thesis
    by (simp add: onEnd_completions onEnd1_completions onEnd_b_completions
        calculateUploadedCounts_def run_returns)
qed

theorem uploaded_total_witness:
  "\<exists>r. onEnd lossyReporter 10 (Inr ()) = Some r \<and>
       completions (out lossyReporter) = [] \<and> truthy (testRunId lossyReporter) \<and>
       rejection (flushPromises lossyReporter) = None \<and>
       completions (out (fst r)) = [(''run-1'', calculateUploadedCounts (fst r) 10)] \<and>
       sm_total (calculateUploadedCounts (fst r) 10) = 1 \<and> totalTests (fst r) = 2 \<and>
       length (uploadFailures (fst r)) = 1"
proof -
  obtain r where r: "onEnd lossyReporter 10 (Inr ()) = Some r"
    using lossy_eval(1) by blast
  have p: "completions (out lossyReporter) = []" "testRunId lossyReporter = Some ''run-1''"
    "rejection (flushPromises lossyReporter) = None"
    by (simp_all add: lossyReporter_def throwingTransport_def hooks_simps completions_simps)
  from lossy_eval(2) r have q: "totalTests (fst r) = 2" "length (uploadFailures (fst r)) = 1"
    by simp_all
  from uploaded_total[of lossyReporter 10 "Inr ()" r "fst r"] r p q
  show ?thesis by simp
qed

subsection \<open>The status buckets of the summary\<close>







subsection \<open>Batched flushes\<close>

text \<open>
  What a flush does. It submits every queued record in one request and leaves the
  queue as it is until the request settles. When the request succeeds, every queued
  record whose title is the title of an entry of \<^verbatim>\<open>response.results\<close> is removed
  and every other record stays (records are matched by title); when the request fails,
  the queue is unchanged. Settling a flush makes no request. \<^verbatim>\<open>onTestEnd\<close> makes a
  flush request exactly when, for a registered test at its final retry and with a run
  identifier, the queue has at least \<^verbatim>\<open>batchSize\<close> records after the push; the
  drain makes one exactly when the run identifier is set and the queue is not empty.
\<close>

lemma batched_flush:
  "submitCalls (out (flushResults stb)) = submitCalls (out stb) @
     (case testRunId stb of
        None \<Rightarrow> []
      | Some runId \<Rightarrow>
          if truthy (Some runId) \<and> resultQueue stb \<noteq> []
          then [(runId, map qi_result (resultQueue stb))] else []) \<and>
   resultQueue (flushResults stb) = resultQueue stb \<and>
   resultQueue (fst (flushSettled stb batch (Inr response))) =
     filter (\<lambda>item. qa_title (qi_result item)
               \<notin> set (map ri_title (case sr_results response of None \<Rightarrow> [] | Some rs \<Rightarrow> rs)))
       (resultQueue stb) \<and>
   resultQueue (fst (flushSettled stb batch (Inl error))) = resultQueue stb \<and>
   submitCalls (out (settleFlush stb i outcome)) = submitCalls (out stb) \<and>
   submitCalls (out (onTestEnd_b stb test result)) = submitCalls (out stb) @
     (case testRunId stb of
        None \<Rightarrow> []
      | Some runId \<Rightarrow>
          if tests stb (getTestId test) \<noteq> None \<and> tr_retry result = tc_retries test \<and>
             truthy (Some runId) \<and>
             opt_batchSize (options stb) \<le> int (length (resultQueue stb)) + 1
          then [(runId, map qi_result (resultQueue stb) @ [convertTestResult test result])]
          else []) \<and>
   submitCalls (out (sendTestResults_b client stb)) = submitCalls (out stb) @
     (case testRunId stb of
        None \<Rightarrow> []
      | Some runId \<Rightarrow>
          if truthy (Some runId) \<and> resultQueue stb \<noteq> []
          then [(runId, map qi_result (resultQueue stb))] else [])"
  by (simp add: flushResults_frame flushSettled_Inr flushSettled_Inl settleFlush_calls
        onTestEnd_b_calls sendTestResults_b_calls)

text \<open>
  C9. The comments of \<^verbatim>\<open>flushResults\<close> say "Only remove successfully processed
  results from queue" and, of a failed batch, "results will be retried in next flush".
  The queue is pruned by title, not by record. One test titled \<^verbatim>\<open>login\<close> ends in
  two projects, so two queued records share the title and the batch of both is
  submitted. The service answers with one processed result titled \<^verbatim>\<open>login\<close> and
  one error for that title. The flush removes both records from the queue, the one the
  service did not confirm included.
\<close>

theorem flush_removes_unconfirmed_namesake:
  "map qi_result (resultQueue twoProjects) =
     [\<lparr>qa_title = ''login'', qa_status = ''passed'', qa_duration = 5, qa_retry = 0\<rparr>,
      \<lparr>qa_title = ''login'', qa_status = ''failed'', qa_duration = 5, qa_retry = 0\<rparr>] \<and>
   flushPromises_b twoProjects = [InFlight (resultQueue twoProjects)] \<and>
   submitCalls (out twoProjects) = [(''run-1'', map qi_result (resultQueue twoProjects))] \<and>
   sr_processedCount oneConfirmed = 1 \<and>
   map ri_title (case sr_results oneConfirmed of None \<Rightarrow> [] | Some rs \<Rightarrow> rs) = [''login''] \<and>
   map re_testTitle (case sr_errors oneConfirmed of None \<Rightarrow> [] | Some es \<Rightarrow> es) = [''login''] \<and>
   resultQueue (settleFlush twoProjects 0 (Inr oneConfirmed)) = []"
  by (simp add: twoProjects_def projectTest_def oneConfirmed_def newBatchReporter_def
        onTestEnd_b_def onTestBegin_def onBegin1_def flushResults_def settleFlush_def
        flushSettled_Inr updateCounters_def convertTestResult_def filteredAttachments_def
        getTestId_def mapTestStatus_def exampleOptions_def exampleResult_def
        submitCalls_simps Let_def)

text \<open>
  The same pruning empties the queue under a request that then fails. With batch size
  2 the second record triggers a flush of two records and the third, titled like the
  first, a flush of all three while the first request is in flight. The first response
  confirms its two records and the flush removes all three from the queue; the second
  request fails and finds the queue empty, so nothing of its batch remains queued and
  the drain submits nothing: the third record is never confirmed and never sent again.
\<close>

lemma failed_batch_not_requeued:
  "map (qa_title \<circ> qi_result) (resultQueue overlappingFlushes) = [''login'', ''logout'', ''login''] \<and>
   flushPromises_b overlappingFlushes =
     [InFlight (take 2 (resultQueue overlappingFlushes)), InFlight (resultQueue overlappingFlushes)] \<and>
   map (map qa_title \<circ> snd) (submitCalls (out overlappingFlushes)) =
     [[''login'', ''logout''], [''login'', ''logout'', ''login'']] \<and>
   map ri_title (case sr_results bothConfirmed of None \<Rightarrow> [] | Some rs \<Rightarrow> rs) =
     [''login'', ''logout''] \<and>
   resultQueue (settleFlush overlappingFlushes 0 (Inr bothConfirmed)) = [] \<and>
   resultQueue (settleFlush (settleFlush overlappingFlushes 0 (Inr bothConfirmed)) 1
                  (Inl (JsError ''503 Service Unavailable''))) = [] \<and>
   submitCalls (out (fst (onEnd_b client
       (settleFlush (settleFlush overlappingFlushes 0 (Inr bothConfirmed)) 1
          (Inl (JsError ''503 Service Unavailable''))) 10 (Inr ())))) =
     submitCalls (out overlappingFlushes)"
  by (simp add: overlappingFlushes_def projectTest_def exampleTest_def bothConfirmed_def
        newBatchReporter_def onEnd_b_def sendTestResults_b_def
        onTestEnd_b_def onTestBegin_def onBegin1_def flushResults_def settleFlush_def
        flushSettled_Inr flushSettled_Inl updateCounters_def convertTestResult_def
        filteredAttachments_def uploadBatchAttachments_def titleToResultId_def log_def
        getTestId_def mapTestStatus_def exampleOptions_def exampleResult_def
        submitCalls_simps Let_def)

subsection \<open>The drain after a failed creation of the test run\<close>

lemma reportFailures_deduplicated:
  assumes "testRunCreationError st = Some m" "uploadFailures st \<noteq> []"
    "list_all (\<lambda>f. uf_error f = ''Test run creation failed: '' @ m) (uploadFailures st)"
  shows "reportFailures st = [WarnCreationFailed, WarnCreationError m, WarnRanLocally (totalTests st)]"
  using assms by (simp add: reportFailures_def Let_def)


text \<open>
  C1. At Scenario B (creation of the test run fails, five records are submitted, the
  run ends) every tracked promise has fulfilled with the failure that wraps the
  creation error, but \<^verbatim>\<open>sendTestResults\<close> returns at its guard on
  \<^verbatim>\<open>state.testRunId\<close>: the five outcomes stay in \<^verbatim>\<open>flushPromises\<close> and no
  failure record is collected.
\<close>

theorem drain_skipped_without_test_run:
  "map_option (\<lambda>st. (map promise (flushPromises st), uploadFailures st, totalTests st))
     (run quotaRun (newReporter exampleOptions)) =
   Some (replicate 5 (Done (Fulfilled (Failure ''Test run creation failed: quota exceeded''))), [], 5)"
  by (simp add: quotaRun_def hooks_simps numeral_eq_Suc)

text \<open>
  C3. At Scenario B the only line printed is the \<^verbatim>\<open>console.error\<close> of
  \<^verbatim>\<open>onBegin\<close>: \<^verbatim>\<open>onEnd\<close> finds no upload failures, prints no warning
  (deduplicated or not) and completes no test run. The deduplicated warning itself is
  what \<open>reportFailures\<close> prints once the failures are collected
  (\<open>reportFailures_deduplicated\<close>).
\<close>

theorem no_diagnostic_after_creation_failure:
  "map_option (\<lambda>st. (out st, uploadFailures st, testRunId st, testRunCreationError st))
     (run quotaRun (newReporter exampleOptions)) =
   Some ([ConsoleError ''Failed to create test run: quota exceeded''], [], None, Some ''quota exceeded'')"
  by (simp add: quotaRun_def hooks_simps)

end
